theory Spec2Isabelle
  imports Main "HOL-Library.Sublist"
begin

section \<open>Data model\<close>

text \<open>
  The widget is the class \<open>PhonePrefix\<close>.  Its fields, and the part of the DOM it reads and
  writes, are one record that every method takes and returns.  Strings are lists of
  characters; \<open>startsWith\<close>, \<open>slice\<close> and \<open>+\<close> act on them position by position.
\<close>

record Country =
  name_common :: string
  flags_svg :: string
  idd_root :: string
  idd_suffixes :: "string list"
  cca2 :: string

text \<open>
  Item elements live in a store and are named by their address: \<open>items\<close>, \<open>selectedItem\<close> and
  \<open>focusedItem\<close> hold references to the same objects.  \<open>renderOptions\<close> gives every
  \<open>DropdownItem\<close> an element of its own, so two item objects are the same object exactly
  when the records are equal; \<open>===\<close> on items is equality of records.
\<close>

type_synonym elem_id = nat

record DropdownItem =
  element :: elem_id
  country :: Country

record img =
  src :: string
  alt :: string

text \<open>
  An element matched by \<open>[data-phone-prefix-element="item"]\<close>: its class list, the
  attributes the code sets, and the two children the code looks up inside it
  (\<open>None\<close>: \<open>querySelector\<close> returns \<open>null\<close>).
\<close>

record html_element =
  classList :: "string list"
  ariaSelected :: "string option"
  ariaLabel :: "string option"
  titleAttr :: "string option"
  flagChild :: "img option"
  valueChild :: "string option"

record toggle_element =
  tg_ariaHaspopup :: "string option"
  tg_ariaLabel :: "string option"
  tg_flag :: "img option"
  tg_value :: "string option"

record input_element =
  inputValue :: string

datatype focus_target = ToggleTarget | ItemTarget elem_id

datatype effect = Dispatch string | PreventDefault | Fetch string

text \<open>
  A method that can throw returns a sum: \<open>Inl\<close> is the error thrown, \<open>Inr\<close> the widget it
  leaves when it returns.  \<open>TypeError\<close> is what a property access on \<open>null\<close> or
  \<open>undefined\<close> throws; the other two are the rejections of a request and of reading its body.
\<close>

datatype error = TypeError | NetworkError | SyntaxError

record KeyboardEvent =
  key :: string
  shiftKey :: bool

text \<open>
  \<open>dropdownList\<close> holds whether the element carries the class \<open>w--open\<close>; \<open>list\<close> holds the item
  elements that are children of the list container, in document order.  Both are \<open>None\<close> when
  the constructor's \<open>querySelector\<close> found nothing.  \<open>elems\<close> is the store of item elements and
  \<open>nextId\<close> the next free address.  \<open>activeElement\<close> is the element holding keyboard focus and
  \<open>effects\<close> the trace of what the widget did to the outside: events dispatched on the toggle,
  \<open>preventDefault\<close> calls and requests sent.
\<close>

record PhonePrefix =
  items :: "DropdownItem list"
  listIsOpen :: bool
  dropdownToggle :: toggle_element
  dropdownList :: "bool option"
  list :: "elem_id list option"
  countryCodeInput :: "input_element option"
  selectedItem :: "DropdownItem option"
  focusedItem :: "DropdownItem option"
  searchQuery :: string
  elems :: "elem_id \<Rightarrow> html_element"
  nextId :: elem_id
  activeElement :: "focus_target option"
  effects :: "effect list"

section \<open>Strings\<close>

definition lowerLetters :: string where
  "lowerLetters = ''abcdefghijklmnopqrstuvwxyz''"

definition upperLetters :: string where
  "upperLetters = ''ABCDEFGHIJKLMNOPQRSTUVWXYZ''"

definition digits :: string where
  "digits = ''0123456789''"

text \<open>\<open>/^[a-zA-Z]$/.test(key)\<close>: the string is one character, and that character is a letter.\<close>

definition isLetter :: "string \<Rightarrow> bool" where
  "isLetter k = (case k of [c] \<Rightarrow> c \<in> set lowerLetters \<or> c \<in> set upperLetters | _ \<Rightarrow> False)"

text \<open>\<open>/^[0-9]$/.test(key)\<close>: the string is one character, and that character is a digit.\<close>

definition isDigit :: "string \<Rightarrow> bool" where
  "isDigit k = (case k of [c] \<Rightarrow> c \<in> set digits | _ \<Rightarrow> False)"

definition lowerChar :: "char \<Rightarrow> char" where
  "lowerChar c = (case map_of (zip upperLetters lowerLetters) c of Some l \<Rightarrow> l | None \<Rightarrow> c)"

text \<open>\<open>toLowerCase\<close>, on the letters A to Z; every other character is kept.  The search
  query holds letters and digits of ASCII only, and it is what the lower-cased texts are
  compared with.\<close>

definition toLowerCase :: "string \<Rightarrow> string" where
  "toLowerCase s = map lowerChar s"

fun startsWith :: "string \<Rightarrow> string \<Rightarrow> bool" where
  "startsWith s [] = True"
| "startsWith [] (p # ps) = False"
| "startsWith (c # cs) (p # ps) = (c = p \<and> startsWith cs ps)"

text \<open>The template string built at three places of the source: the root, then the suffix when
  there is exactly one.\<close>

definition countryCodeOf :: "Country \<Rightarrow> string" where
  "countryCodeOf c =
     idd_root c @ (if length (idd_suffixes c) = 1 then hd (idd_suffixes c) else [])"

section \<open>Focus\<close>

text \<open>
  \<open>addEventListeners\<close> gives every item two listeners: \<open>focusin\<close> sets \<open>focusedItem\<close> to
  the item, \<open>focusout\<close> clears it.  \<open>element.focus()\<close> on an element that does not have the
  focus fires \<open>focusout\<close> on the element that loses it and \<open>focusin\<close> on the one that gets it;
  on the element that already has the focus it does nothing.  The toggle and the item
  elements are taken to be focusable, as the links of the dropdown they come from are.  The
  listeners of an element are those of the item that holds it: \<open>renderOptions\<close> gives every
  item an element of its own.
\<close>

definition fire_focusout :: "focus_target \<Rightarrow> PhonePrefix \<Rightarrow> PhonePrefix" where
  "fire_focusout t s =
     (case t of
        ToggleTarget \<Rightarrow> s
      | ItemTarget el \<Rightarrow>
          (case find (\<lambda>item. element item = el) (items s) of
             None \<Rightarrow> s
           | Some item \<Rightarrow> s\<lparr>focusedItem := None\<rparr>))"

definition fire_focusin :: "focus_target \<Rightarrow> PhonePrefix \<Rightarrow> PhonePrefix" where
  "fire_focusin t s =
     (case t of
        ToggleTarget \<Rightarrow> s
      | ItemTarget el \<Rightarrow>
          (case find (\<lambda>item. element item = el) (items s) of
             None \<Rightarrow> s
           | Some item \<Rightarrow> s\<lparr>focusedItem := Some item\<rparr>))"

definition element_focus :: "focus_target \<Rightarrow> PhonePrefix \<Rightarrow> PhonePrefix" where
  "element_focus t s =
     (if activeElement s = Some t then s
      else
        let s1 = (case activeElement s of None \<Rightarrow> s | Some old \<Rightarrow> fire_focusout old s);
            s2 = s1\<lparr>activeElement := Some t\<rparr>
        in fire_focusin t s2)"

section \<open>Search by typing\<close>

definition clearSearchQuery :: "PhonePrefix \<Rightarrow> PhonePrefix" where
  "clearSearchQuery s = s\<lparr>searchQuery := []\<rparr>"

text \<open>Lines 171 to 187: the query after the key, from the query before it.\<close>

definition nextQuery :: "string \<Rightarrow> string \<Rightarrow> string" where
  "nextQuery k q =
     (if k = ''Backspace'' then butlast q
      else if length k = 1 \<and> (isLetter k \<or> isDigit k) then
        (if isDigit k \<and> isLetter q then k
         else if isLetter k then (if isDigit q then k else q @ toLowerCase k)
         else if isDigit k then q @ k
         else q)
      else q)"

text \<open>The predicate handed to \<open>items.find\<close> at lines 190 to 198.\<close>

definition matchesQuery :: "string \<Rightarrow> DropdownItem \<Rightarrow> bool" where
  "matchesQuery q item =
     (let countryCode = countryCodeOf (country item);
          searchTerm = toLowerCase q
      in startsWith (toLowerCase countryCode) (''+'' @ searchTerm)
         \<or> startsWith (toLowerCase (cca2 (country item))) searchTerm
         \<or> startsWith (toLowerCase (name_common (country item))) searchTerm)"

definition handleDropdownSearch :: "KeyboardEvent \<Rightarrow> PhonePrefix \<Rightarrow> PhonePrefix" where
  "handleDropdownSearch e s =
     (if \<not> listIsOpen s then s
      else
        let s1 = s\<lparr>searchQuery := nextQuery (key e) (searchQuery s)\<rparr>
        in if length (searchQuery s1) > 0 then
             (case find (matchesQuery (searchQuery s1)) (items s1) of
                None \<Rightarrow> s1
              | Some matchedItem \<Rightarrow> element_focus (ItemTarget (element matchedItem)) s1)
           else s1)"

text \<open>A run of key presses, each handled by \<open>handleDropdownSearch\<close>, oldest first.\<close>

definition typeKeys :: "string list \<Rightarrow> PhonePrefix \<Rightarrow> PhonePrefix" where
  "typeKeys ks s = foldl (\<lambda>s k. handleDropdownSearch \<lparr>key = k, shiftKey = False\<rparr> s) s ks"

section \<open>Selection\<close>

definition dropdownItemSelected :: string where
  "dropdownItemSelected = ''w--current''"

text \<open>\<open>classList.toggle(c, force)\<close>: with \<open>force\<close> the class is added unless present, without
  it the class is removed.\<close>

definition classList_toggle :: "string \<Rightarrow> bool \<Rightarrow> string list \<Rightarrow> string list" where
  "classList_toggle c force cl =
     (if force then (if c \<in> set cl then cl else cl @ [c]) else removeAll c cl)"

definition toggleItemSelected :: "DropdownItem \<Rightarrow> bool \<Rightarrow> PhonePrefix \<Rightarrow> PhonePrefix" where
  "toggleItemSelected item isSelected s =
     (let el = elems s (element item);
          el' = el\<lparr>classList := classList_toggle dropdownItemSelected isSelected (classList el),
                    ariaSelected := Some (if isSelected then ''true'' else ''false'')\<rparr>
      in s\<lparr>elems := (elems s)(element item := el')\<rparr>)"

text \<open>
  \<open>updateDropdownToggle\<close> writes to the toggle's flag and value children; a child that
  \<open>querySelector\<close> did not find is \<open>null\<close>, and the first write to it throws.
\<close>

definition updateDropdownToggle :: "DropdownItem \<Rightarrow> toggle_element \<Rightarrow> error + toggle_element" where
  "updateDropdownToggle item tg =
     (let c = country item;
          countryName = name_common c;
          countryCode = countryCodeOf c
      in case tg_flag tg of
           None \<Rightarrow> Inl TypeError
         | Some dropdownToggleFlag \<Rightarrow>
             (case tg_value tg of
                None \<Rightarrow> Inl TypeError
              | Some dropdownToggleValue \<Rightarrow>
                  Inr (tg\<lparr>tg_flag := Some (dropdownToggleFlag\<lparr>src := flags_svg c,
                                                                alt := countryName @ '' Flag''\<rparr>),
                          tg_value := Some countryCode,
                          tg_ariaLabel := Some countryName\<rparr>)))"

definition closeDropdown :: "bool \<Rightarrow> PhonePrefix \<Rightarrow> PhonePrefix" where
  "closeDropdown focusToggle s =
     (let s1 = (if focusToggle then element_focus ToggleTarget s else s)
      in s1\<lparr>effects := effects s1 @ [Dispatch ''click'', Dispatch ''mouseup'']\<rparr>)"

definition handleItemSelect :: "DropdownItem \<Rightarrow> PhonePrefix \<Rightarrow> error + PhonePrefix" where
  "handleItemSelect item s =
     (if selectedItem s = Some item then Inr s
      else
        let s1 = (case selectedItem s of
                    None \<Rightarrow> s
                  | Some previous \<Rightarrow> toggleItemSelected previous False s);
            s2 = toggleItemSelected item True s1;
            s3 = s2\<lparr>selectedItem := Some item\<rparr>
        in case updateDropdownToggle item (dropdownToggle s3) of
             Inl err \<Rightarrow> Inl err
           | Inr tg \<Rightarrow>
               let s4 = s3\<lparr>dropdownToggle := tg\<rparr>;
                   s5 = (case countryCodeInput s4 of
                           None \<Rightarrow> s4
                         | Some inp \<Rightarrow>
                             s4\<lparr>countryCodeInput :=
                                   Some (inp\<lparr>inputValue := cca2 (country item)\<rparr>)\<rparr>)
               in Inr (if listIsOpen s5 then closeDropdown True s5 else s5))"

text \<open>The click listener of line 141: a click on an item's element selects that item.\<close>

definition element_click :: "elem_id \<Rightarrow> PhonePrefix \<Rightarrow> error + PhonePrefix" where
  "element_click el s =
     (case find (\<lambda>item. element item = el) (items s) of
        None \<Rightarrow> Inr s
      | Some item \<Rightarrow> handleItemSelect item s)"

section \<open>Keyboard navigation\<close>

text \<open>\<open>findIndex\<close> gives -1 when no entry passes; \<open>xs[i]\<close> is \<open>undefined\<close> out of range.\<close>

fun findIndexFrom :: "int \<Rightarrow> ('a \<Rightarrow> bool) \<Rightarrow> 'a list \<Rightarrow> int" where
  "findIndexFrom i P [] = -1"
| "findIndexFrom i P (x # xs) = (if P x then i else findIndexFrom (i + 1) P xs)"

definition findIndex :: "('a \<Rightarrow> bool) \<Rightarrow> 'a list \<Rightarrow> int" where
  "findIndex P xs = findIndexFrom 0 P xs"

definition array_at :: "'a list \<Rightarrow> int \<Rightarrow> 'a option" where
  "array_at xs i = (if 0 \<le> i \<and> i < int (length xs) then Some (xs ! nat i) else None)"

definition handleDropdownNavigation :: "KeyboardEvent \<Rightarrow> PhonePrefix \<Rightarrow> error + PhonePrefix" where
  "handleDropdownNavigation e s =
     (if \<not> listIsOpen s then Inr s
      else
        let isSpace = (key e = '' '');
            isTab = (key e = ''Tab'');
            isArrowUp = (key e = ''ArrowUp'');
            isArrowDown = (key e = ''ArrowDown'')
        in case (case focusedItem s of
                   None \<Rightarrow> Inr s
                 | Some f \<Rightarrow> if isSpace then element_click (element f) s else Inr s) of
             Inl err \<Rightarrow> Inl err
           | Inr s1 \<Rightarrow>
               let s2 = (if isTab then
                           closeDropdown (shiftKey e)
                             (if shiftKey e then s1\<lparr>effects := effects s1 @ [PreventDefault]\<rparr>
                              else s1)
                         else s1)
               in if isArrowUp \<or> isArrowDown then
                    (case focusedItem s2 of
                       None \<Rightarrow> Inr s2
                     | Some f \<Rightarrow>
                         let index = findIndex (\<lambda>item. item = f) (items s2)
                         in if index < 0 then Inr s2
                            else
                              let nextIndex = (if isArrowUp then index - 1 else index + 1);
                                  nextIndex = (if nextIndex < 0 then 0 else nextIndex);
                                  nextIndex = (if nextIndex \<ge> int (length (items s2))
                                               then int (length (items s2)) else nextIndex)
                              in (case array_at (items s2) nextIndex of
                                    None \<Rightarrow> Inr s2
                                  | Some nextItem \<Rightarrow>
                                      Inr (element_focus (ItemTarget (element nextItem)) s2)))
                  else Inr s2)"

text \<open>The \<open>keydown\<close> listener of lines 135 to 138.\<close>

definition keydown :: "KeyboardEvent \<Rightarrow> PhonePrefix \<Rightarrow> error + PhonePrefix" where
  "keydown e s = handleDropdownNavigation e (handleDropdownSearch e s)"

definition addEventListeners :: "PhonePrefix \<Rightarrow> error + PhonePrefix" where
  "addEventListeners s = (case dropdownList s of None \<Rightarrow> Inl TypeError | Some _ \<Rightarrow> Inr s)"

section \<open>The mutation observer\<close>

text \<open>The callback of lines 152 to 157, run after the class attribute of the dropdown list
  changed.\<close>

definition observerCallback :: "PhonePrefix \<Rightarrow> error + PhonePrefix" where
  "observerCallback s =
     (case dropdownList s of
        None \<Rightarrow> Inl TypeError
      | Some hasOpenClass \<Rightarrow>
          let s1 = s\<lparr>listIsOpen := hasOpenClass\<rparr>
          in if listIsOpen s1 then
               let s2 = clearSearchQuery s1
               in (case selectedItem s2 of
                     Some sel \<Rightarrow> Inr (element_focus (ItemTarget (element sel)) s2)
                   | None \<Rightarrow>
                       (case items s2 of
                          [] \<Rightarrow> Inl TypeError
                        | first # _ \<Rightarrow> Inr (element_focus (ItemTarget (element first)) s2)))
             else Inr s1)"

definition observeDropdownList :: "PhonePrefix \<Rightarrow> error + PhonePrefix" where
  "observeDropdownList s = (case dropdownList s of None \<Rightarrow> Inl TypeError | Some _ \<Rightarrow> Inr s)"

section \<open>Rendering\<close>

text \<open>Lines 122 to 129: what is written to the clone, its flag child being \<open>flag\<close>.\<close>

definition fillItemElement :: "Country \<Rightarrow> img \<Rightarrow> html_element \<Rightarrow> html_element" where
  "fillItemElement c flag node =
     (let countryCode = countryCodeOf c
      in node\<lparr>flagChild := Some (flag\<lparr>src := flags_svg c, alt := name_common c @ '' Flag''\<rparr>),
              valueChild := Some (cca2 c @ '' ('' @ countryCode @ '')''),
              ariaLabel := Some (name_common c),
              titleAttr := Some (name_common c)\<rparr>)"

text \<open>
  \<open>createCountryItem\<close> clones the template (a deep copy at a fresh address) and fills the
  copy in.  The flag and the value are looked up inside the copy; writing to one that is
  missing throws.
\<close>

definition createCountryItem ::
  "Country \<Rightarrow> elem_id \<Rightarrow> PhonePrefix \<Rightarrow> error + (elem_id \<times> PhonePrefix)" where
  "createCountryItem c listItemTemplate s =
     (let itemElement = nextId s;
          node = elems s listItemTemplate
      in case flagChild node of
           None \<Rightarrow> Inl TypeError
         | Some flag \<Rightarrow>
             (case valueChild node of
                None \<Rightarrow> Inl TypeError
              | Some v \<Rightarrow>
                  Inr (itemElement,
                       s\<lparr>elems := (elems s)(itemElement := fillItemElement c flag node),
                         nextId := Suc (nextId s)\<rparr>)))"

definition appendChild :: "elem_id \<Rightarrow> PhonePrefix \<Rightarrow> PhonePrefix" where
  "appendChild el s =
     (case list s of None \<Rightarrow> s | Some children \<Rightarrow> s\<lparr>list := Some (children @ [el])\<rparr>)"

definition removeChild :: "elem_id \<Rightarrow> PhonePrefix \<Rightarrow> PhonePrefix" where
  "removeChild el s =
     (case list s of None \<Rightarrow> s | Some children \<Rightarrow> s\<lparr>list := Some (remove1 el children)\<rparr>)"

text \<open>The \<open>countries.map\<close> of lines 108 to 112: one clone per country, appended to the list
  container as it is made.\<close>

fun mapCountries ::
  "Country list \<Rightarrow> elem_id \<Rightarrow> PhonePrefix \<Rightarrow> error + (DropdownItem list \<times> PhonePrefix)" where
  "mapCountries [] listItem s = Inr ([], s)"
| "mapCountries (c # cs) listItem s =
     (case createCountryItem c listItem s of
        Inl err \<Rightarrow> Inl err
      | Inr (itemElement, s1) \<Rightarrow>
          (case mapCountries cs listItem (appendChild itemElement s1) of
             Inl err \<Rightarrow> Inl err
           | Inr (rest, s2) \<Rightarrow> Inr (\<lparr>element = itemElement, country = c\<rparr> # rest, s2)))"

text \<open>\<open>this.list.querySelector(item)\<close> is the first item element of the list container, \<open>null\<close>
  when it has none; on a missing list container the call itself throws.\<close>

definition renderOptions :: "Country list \<Rightarrow> PhonePrefix \<Rightarrow> error + PhonePrefix" where
  "renderOptions countries s =
     (case list s of
        None \<Rightarrow> Inl TypeError
      | Some children \<Rightarrow>
          (case children of
             [] \<Rightarrow> Inr s
           | listItem # _ \<Rightarrow>
               (case mapCountries countries listItem s of
                  Inl err \<Rightarrow> Inl err
                | Inr (its, s1) \<Rightarrow> Inr (removeChild listItem (s1\<lparr>items := its\<rparr>)))))"

section \<open>The two requests\<close>

text \<open>
  A promise settles as \<open>Inl\<close> (rejected) or \<open>Inr\<close> (fulfilled).  What the network answers is
  an argument: a rejected \<open>fetch\<close>, or a response whose body reads as JSON or as text, each of
  which may be rejected in turn.
\<close>

type_synonym 'a promise = "error + 'a"

record Response =
  body_json :: "Country list promise"
  body_text :: "string promise"

definition try_catch :: "error + 'a \<Rightarrow> 'a \<Rightarrow> error + 'a" where
  "try_catch body handler = (case body of Inl _ \<Rightarrow> Inr handler | Inr v \<Rightarrow> Inr v)"

definition countriesUrl :: string where
  "countriesUrl = ''https://restcountries.com/v3.1/all?fields=name,cca2,idd,flags''"

definition traceUrl :: string where
  "traceUrl = ''https://www.cloudflare.com/cdn-cgi/trace''"

definition fetch :: "string \<Rightarrow> PhonePrefix \<Rightarrow> PhonePrefix" where
  "fetch url s = s\<lparr>effects := effects s @ [Fetch url]\<rparr>"

definition fetchCountries ::
  "Response promise \<Rightarrow> PhonePrefix \<Rightarrow> (error + Country list) \<times> PhonePrefix" where
  "fetchCountries net s =
     (try_catch
        (case net of Inl err \<Rightarrow> Inl err | Inr response \<Rightarrow> body_json response)
        [],
      fetch countriesUrl s)"

text \<open>\<open>text.match(/[^\r\n]+/g)\<close>: the maximal runs of characters other than CR and LF.\<close>

fun matchLines :: "string \<Rightarrow> string \<Rightarrow> string list" where
  "matchLines [] cur = (if cur = [] then [] else [cur])"
| "matchLines (c # cs) cur =
     (if c = CHR 0x0D \<or> c = CHR 0x0A
      then (if cur = [] then matchLines cs [] else cur # matchLines cs [])
      else matchLines cs (cur @ [c]))"

text \<open>\<open>line.split("=")\<close>: the pieces between the separators, at least one.\<close>

fun splitOn :: "char \<Rightarrow> string \<Rightarrow> string \<Rightarrow> string list" where
  "splitOn d [] cur = [cur]"
| "splitOn d (c # cs) cur = (if c = d then cur # splitOn d cs [] else splitOn d cs (cur @ [c]))"

definition parseLoc :: "string \<Rightarrow> string option" where
  "parseLoc txt =
     (case find (\<lambda>line. startsWith line ''loc'') (matchLines txt []) of
        None \<Rightarrow> None
      | Some locLine \<Rightarrow>
          if locLine \<noteq> [] then array_at (splitOn (CHR ''='') locLine []) 1 else None)"

definition fetchUserLocation ::
  "Response promise \<Rightarrow> PhonePrefix \<Rightarrow> (error + string option) \<times> PhonePrefix" where
  "fetchUserLocation net s =
     (try_catch
        (case net of
           Inl err \<Rightarrow> Inl err
         | Inr response \<Rightarrow>
             (case body_text response of
                Inl err \<Rightarrow> Inl err
              | Inr txt \<Rightarrow> Inr (parseLoc txt)))
        None,
      fetch traceUrl s)"

section \<open>Construction and initialisation\<close>

text \<open>\<open>a || b\<close> on values that are a string or \<open>undefined\<close>: \<open>a\<close> unless it is \<open>undefined\<close> or
  the empty string.\<close>

definition js_or :: "string option \<Rightarrow> string option \<Rightarrow> string option" where
  "js_or a b = (case a of None \<Rightarrow> b | Some x \<Rightarrow> if x = [] then b else Some x)"

text \<open>Lines 74 to 79, which run once the location request has settled.\<close>

definition init_select ::
  "string option \<Rightarrow> string option \<Rightarrow> PhonePrefix \<Rightarrow> error + PhonePrefix" where
  "init_select location defaultCountryCode s =
     (let countryCode = js_or location defaultCountryCode
      in case find (\<lambda>item. Some (cca2 (country item)) = countryCode) (items s) of
           None \<Rightarrow> Inr s
         | Some selectedCountry \<Rightarrow> handleItemSelect selectedCountry s)"

text \<open>Lines 68 to 71, up to the second \<open>await\<close>.\<close>

definition init_render :: "Response promise \<Rightarrow> PhonePrefix \<Rightarrow> error + PhonePrefix" where
  "init_render netCountries s =
     (case fetchCountries netCountries s of
        (Inl err, _) \<Rightarrow> Inl err
      | (Inr countries, s1) \<Rightarrow>
          (case renderOptions countries s1 of
             Inl err \<Rightarrow> Inl err
           | Inr s2 \<Rightarrow>
               (case addEventListeners s2 of
                  Inl err \<Rightarrow> Inl err
                | Inr s3 \<Rightarrow> observeDropdownList s3)))"

text \<open>\<open>init\<close>; \<open>Inl\<close> is the rejection of the promise it returns, which nothing handles.\<close>

definition init ::
  "string option \<Rightarrow> Response promise \<Rightarrow> Response promise \<Rightarrow> PhonePrefix \<Rightarrow> error + PhonePrefix" where
  "init defaultCountryCode netCountries netTrace s =
     (case init_render netCountries s of
        Inl err \<Rightarrow> Inl err
      | Inr s4 \<Rightarrow>
          (case fetchUserLocation netTrace s4 of
             (Inl err, _) \<Rightarrow> Inl err
           | (Inr location, s5) \<Rightarrow> init_select location defaultCountryCode s5))"

text \<open>
  What the constructor finds under the root element: the toggle, the dropdown list (with
  whether it carries \<open>w--open\<close>) and the list container (with its item elements), each \<open>None\<close>
  when \<open>querySelector\<close> returns \<open>null\<close>, and the store the item elements live in.
\<close>

record root_element =
  root_toggle :: "toggle_element option"
  root_dropdownList :: "bool option"
  root_list :: "elem_id list option"
  root_elems :: "elem_id \<Rightarrow> html_element"
  root_nextId :: elem_id

text \<open>The constructor, up to its call of \<open>init\<close>: \<open>setAttribute\<close> on a missing toggle throws.\<close>

definition constructor ::
  "root_element \<Rightarrow> input_element option \<Rightarrow> error + PhonePrefix" where
  "constructor root input =
     (case root_toggle root of
        None \<Rightarrow> Inl TypeError
      | Some tg \<Rightarrow>
          Inr \<lparr>items = [], listIsOpen = False,
               dropdownToggle = tg\<lparr>tg_ariaHaspopup := Some ''listbox''\<rparr>,
               dropdownList = root_dropdownList root,
               list = root_list root,
               countryCodeInput = input,
               selectedItem = None, focusedItem = None, searchQuery = [],
               elems = root_elems root, nextId = root_nextId root,
               activeElement = None, effects = []\<rparr>)"

section \<open>Invariants\<close>

text \<open>An item carries the selected marker when its element has the class \<open>w--current\<close>.\<close>

definition markedSelected :: "PhonePrefix \<Rightarrow> DropdownItem \<Rightarrow> bool" where
  "markedSelected s item = (dropdownItemSelected \<in> set (classList (elems s (element item))))"

text \<open>The marker is on the selected item and on no other item.\<close>

definition selectionConsistent :: "PhonePrefix \<Rightarrow> bool" where
  "selectionConsistent s =
     list_all (\<lambda>item. markedSelected s item = (selectedItem s = Some item)) (items s)"

section \<open>An example page\<close>

text \<open>A page with a toggle, a closed dropdown list and a list container holding the template
  item, and the two countries of the specification's examples.\<close>

definition templateElement :: html_element where
  "templateElement =
     \<lparr>classList = [''w-dropdown-link''], ariaSelected = None, ariaLabel = None,
      titleAttr = None, flagChild = Some \<lparr>src = [], alt = []\<rparr>, valueChild = Some []\<rparr>"

definition exampleToggle :: toggle_element where
  "exampleToggle =
     \<lparr>tg_ariaHaspopup = None, tg_ariaLabel = None,
      tg_flag = Some \<lparr>src = [], alt = []\<rparr>, tg_value = Some []\<rparr>"

definition exampleRoot :: root_element where
  "exampleRoot =
     \<lparr>root_toggle = Some exampleToggle, root_dropdownList = Some False,
      root_list = Some [0], root_elems = (\<lambda>_. templateElement), root_nextId = 1\<rparr>"

definition US :: Country where
  "US = \<lparr>name_common = ''United States'', flags_svg = ''us.svg'', idd_root = ''+1'',
          idd_suffixes = [''201'', ''202''], cca2 = ''US''\<rparr>"

definition FR :: Country where
  "FR = \<lparr>name_common = ''France'', flags_svg = ''fr.svg'', idd_root = ''+3'',
          idd_suffixes = [''3''], cca2 = ''FR''\<rparr>"

definition itemUS :: DropdownItem where
  "itemUS = \<lparr>element = 1, country = US\<rparr>"

definition itemFR :: DropdownItem where
  "itemFR = \<lparr>element = 2, country = FR\<rparr>"

text \<open>The widget of the example page once both countries are rendered, nothing selected.\<close>

definition exampleWidget :: PhonePrefix where
  "exampleWidget =
     \<lparr>items = [itemUS, itemFR], listIsOpen = False,
      dropdownToggle = exampleToggle\<lparr>tg_ariaHaspopup := Some ''listbox''\<rparr>,
      dropdownList = Some False, list = Some [1, 2],
      countryCodeInput = Some \<lparr>inputValue = []\<rparr>,
      selectedItem = None, focusedItem = None, searchQuery = [],
      elems = (\<lambda>_. templateElement), nextId = 3,
      activeElement = None, effects = []\<rparr>"

text \<open>A response whose body reads both as the country list and as the trace text.\<close>

definition exampleTrace :: string where
  "exampleTrace = ''fl=1'' @ [CHR 0x0A] @ ''loc=FR'' @ [CHR 0x0A] @ ''tls=TLSv1.3'' @ [CHR 0x0A]"

definition exampleResponse :: Response where
  "exampleResponse = \<lparr>body_json = Inr [US, FR], body_text = Inr exampleTrace\<rparr>"

text \<open>The example widget with the list open and the first country selected.\<close>

definition exampleSelectedUS :: PhonePrefix where
  "exampleSelectedUS =
     exampleWidget
       \<lparr>listIsOpen := True, selectedItem := Some itemUS,
        elems := (\<lambda>_. templateElement)
          (1 := templateElement\<lparr>classList := [''w-dropdown-link'', ''w--current''],
                                ariaSelected := Some ''true''\<rparr>)\<rparr>"

text \<open>The country of the glossary's example: root 1, one suffix 242.\<close>

definition BS :: Country where
  "BS = \<lparr>name_common = ''Bahamas'', flags_svg = ''bs.svg'', idd_root = ''1'',
          idd_suffixes = [''242''], cca2 = ''BS''\<rparr>"

text \<open>The widget the constructor makes of the example page, before anything is rendered.\<close>

definition examplePage :: PhonePrefix where
  "examplePage =
     \<lparr>items = [], listIsOpen = False,
      dropdownToggle = exampleToggle\<lparr>tg_ariaHaspopup := Some ''listbox''\<rparr>,
      dropdownList = Some False, list = Some [0],
      countryCodeInput = Some \<lparr>inputValue = []\<rparr>,
      selectedItem = None, focusedItem = None, searchQuery = [],
      elems = (\<lambda>_. templateElement), nextId = 1,
      activeElement = None, effects = []\<rparr>"

text \<open>The example page once \<open>init\<close> has rendered the two countries of the example response.\<close>

definition exampleRendered :: PhonePrefix where
  "exampleRendered =
     \<lparr>items = [itemUS, itemFR], listIsOpen = False,
      dropdownToggle = exampleToggle\<lparr>tg_ariaHaspopup := Some ''listbox''\<rparr>,
      dropdownList = Some False, list = Some [1, 2],
      countryCodeInput = Some \<lparr>inputValue = []\<rparr>,
      selectedItem = None, focusedItem = None, searchQuery = [],
      elems = (\<lambda>_. templateElement)
        (1 := fillItemElement US \<lparr>src = [], alt = []\<rparr> templateElement,
         2 := fillItemElement FR \<lparr>src = [], alt = []\<rparr> templateElement),
      nextId = 3,
      activeElement = None, effects = [Fetch countriesUrl]\<rparr>"

section \<open>What a search key changes\<close>

lemma fire_focusout_eq:
  "\<exists>f. fire_focusout t s = s\<lparr>focusedItem := f\<rparr>"
proof (cases t)
  case ToggleTarget
  have "fire_focusout t s = s\<lparr>focusedItem := focusedItem s\<rparr>"
    using ToggleTarget by (simp add: fire_focusout_def)
  then show ?thesis by blast
next
  case (ItemTarget el)
  show ?thesis
  proof (cases "find (\<lambda>item. element item = el) (items s)")
    case None
    have "fire_focusout t s = s\<lparr>focusedItem := focusedItem s\<rparr>"
      using ItemTarget None by (simp add: fire_focusout_def)
    then show ?thesis by blast
  next
    case (Some a)
    have "fire_focusout t s = s\<lparr>focusedItem := None\<rparr>"
      using ItemTarget Some by (simp add: fire_focusout_def)
    then show ?thesis by blast
  qed
qed

lemma fire_focusin_eq:
  "\<exists>f. fire_focusin t s = s\<lparr>focusedItem := f\<rparr>"
proof (cases t)
  case ToggleTarget
  have "fire_focusin t s = s\<lparr>focusedItem := focusedItem s\<rparr>"
    using ToggleTarget by (simp add: fire_focusin_def)
  then show ?thesis by blast
next
  case (ItemTarget el)
  show ?thesis
  proof (cases "find (\<lambda>item. element item = el) (items s)")
    case None
    have "fire_focusin t s = s\<lparr>focusedItem := focusedItem s\<rparr>"
      using ItemTarget None by (simp add: fire_focusin_def)
    then show ?thesis by blast
  next
    case (Some a)
    have "fire_focusin t s = s\<lparr>focusedItem := Some a\<rparr>"
      using ItemTarget Some by (simp add: fire_focusin_def)
    then show ?thesis by blast
  qed
qed

lemma element_focus_eq:
  "\<exists>a f. element_focus t s = s\<lparr>activeElement := a, focusedItem := f\<rparr>"
proof (cases "activeElement s = Some t")
  case True
  have "element_focus t s = s\<lparr>activeElement := activeElement s, focusedItem := focusedItem s\<rparr>"
    using True by (simp add: element_focus_def)
  then show ?thesis by blast
next
  case False
  define s1 where "s1 = (case activeElement s of None \<Rightarrow> s | Some old \<Rightarrow> fire_focusout old s)"
  have "\<exists>f. s1 = s\<lparr>focusedItem := f\<rparr>"
  proof (cases "activeElement s")
    case None
    then have "s1 = s\<lparr>focusedItem := focusedItem s\<rparr>" by (simp add: s1_def)
    then show ?thesis by blast
  next
    case (Some old)
    then show ?thesis using fire_focusout_eq [of old s] by (simp add: s1_def)
  qed
  then obtain f1 where f1: "s1 = s\<lparr>focusedItem := f1\<rparr>" by blast
  obtain f2 where f2: "fire_focusin t (s1\<lparr>activeElement := Some t\<rparr>)
      = (s1\<lparr>activeElement := Some t\<rparr>)\<lparr>focusedItem := f2\<rparr>"
    using fire_focusin_eq by blast
  have "element_focus t s = fire_focusin t (s1\<lparr>activeElement := Some t\<rparr>)"
    using False by (simp add: element_focus_def s1_def Let_def)
  then have "element_focus t s = s\<lparr>activeElement := Some t, focusedItem := f2\<rparr>"
    using f1 f2 by simp
  then show ?thesis by blast
qed

lemma handleDropdownSearch_eq:
  "\<exists>q a f. handleDropdownSearch e s = s\<lparr>searchQuery := q, activeElement := a, focusedItem := f\<rparr>
     \<and> q = (if listIsOpen s then nextQuery (key e) (searchQuery s) else searchQuery s)"
proof (cases "listIsOpen s")
  case False
  then have "handleDropdownSearch e s
      = s\<lparr>searchQuery := searchQuery s, activeElement := activeElement s, focusedItem := focusedItem s\<rparr>"
    by (simp add: handleDropdownSearch_def)
  moreover have "searchQuery s = (if listIsOpen s then nextQuery (key e) (searchQuery s) else searchQuery s)"
    using False by simp
  ultimately show ?thesis by blast
next
  case True
  define s1 where "s1 = s\<lparr>searchQuery := nextQuery (key e) (searchQuery s)\<rparr>"
  have s1_id: "s1 = s\<lparr>searchQuery := nextQuery (key e) (searchQuery s),
      activeElement := activeElement s, focusedItem := focusedItem s\<rparr>"
    by (simp add: s1_def)
  show ?thesis
  proof (cases "length (searchQuery s1) > 0
      \<and> find (matchesQuery (searchQuery s1)) (items s1) \<noteq> None")
    case False
    then have "handleDropdownSearch e s = s1"
      using True by (auto simp: handleDropdownSearch_def s1_def Let_def)
    then have "handleDropdownSearch e s = s\<lparr>searchQuery := nextQuery (key e) (searchQuery s),
        activeElement := activeElement s, focusedItem := focusedItem s\<rparr>"
      using s1_id by simp
    moreover have "nextQuery (key e) (searchQuery s)
        = (if listIsOpen s then nextQuery (key e) (searchQuery s) else searchQuery s)"
      using True by simp
    ultimately show ?thesis by blast
  next
    case yes: True
    then obtain m where m: "find (matchesQuery (searchQuery s1)) (items s1) = Some m" by auto
    have "handleDropdownSearch e s = element_focus (ItemTarget (element m)) s1"
      using True yes m by (simp add: handleDropdownSearch_def s1_def Let_def)
    moreover obtain a f where "element_focus (ItemTarget (element m)) s1
        = s1\<lparr>activeElement := a, focusedItem := f\<rparr>"
      using element_focus_eq by blast
    ultimately have "handleDropdownSearch e s
        = s\<lparr>searchQuery := nextQuery (key e) (searchQuery s), activeElement := a, focusedItem := f\<rparr>"
      by (simp add: s1_def)
    moreover have "nextQuery (key e) (searchQuery s)
        = (if listIsOpen s then nextQuery (key e) (searchQuery s) else searchQuery s)"
      using True by simp
    ultimately show ?thesis by blast
  qed
qed

text \<open>
  C10.  \<open>handleDropdownSearch\<close> leaves the selected item, the item list (with every
  item's country), the open flag and the bound input as they were: its result is the state it
  was given with, at most, another search query, another focused element and another
  \<open>focusedItem\<close>.
\<close>

theorem handleDropdownSearch_frame:
  "selectedItem (handleDropdownSearch e s) = selectedItem s
   \<and> items (handleDropdownSearch e s) = items s
   \<and> listIsOpen (handleDropdownSearch e s) = listIsOpen s
   \<and> countryCodeInput (handleDropdownSearch e s) = countryCodeInput s
   \<and> (\<exists>q a f. handleDropdownSearch e s
         = s\<lparr>searchQuery := q, activeElement := a, focusedItem := f\<rparr>)"
proof -
  obtain q a f where eq: "handleDropdownSearch e s
      = s\<lparr>searchQuery := q, activeElement := a, focusedItem := f\<rparr>"
    using handleDropdownSearch_eq by blast
  show ?thesis unfolding eq by auto
qed

lemma searchQuery_handleDropdownSearch:
  "searchQuery (handleDropdownSearch e s)
     = (if listIsOpen s then nextQuery (key e) (searchQuery s) else searchQuery s)"
  using handleDropdownSearch_eq [of e s] by auto

lemma listIsOpen_handleDropdownSearch:
  "listIsOpen (handleDropdownSearch e s) = listIsOpen s"
  using handleDropdownSearch_eq [of e s] by auto

text \<open>
  C1.  The query is not always homogeneous.  \<open>isLetter\<close> and \<open>isDigit\<close> pass strings of
  one character only, so the restart happens from a query of length one, and it stores the
  key as typed.  On an open list with an empty query, the keys a, b, 1 leave the mixed query
  ab1, and the keys 1, A leave the upper-case query A.
\<close>

theorem searchQuery_not_homogeneous:
  "searchQuery (typeKeys [''a'', ''b'', ''1''] (s\<lparr>listIsOpen := True, searchQuery := []\<rparr>))
     = ''ab1''
   \<and> searchQuery (typeKeys [''1'', ''A''] (s\<lparr>listIsOpen := True, searchQuery := []\<rparr>))
     = ''A''"
  by (simp add: typeKeys_def searchQuery_handleDropdownSearch listIsOpen_handleDropdownSearch
      nextQuery_def isLetter_def isDigit_def digits_def lowerLetters_def upperLetters_def
      toLowerCase_def lowerChar_def)

section \<open>Where a search key moves the focus\<close>

lemma startsWith_prefix: "startsWith s p = prefix p s"
  by (induction s p rule: startsWith.induct) auto

lemma activeElement_element_focus: "activeElement (element_focus t s) = Some t"
proof (cases "activeElement s = Some t")
  case True
  then show ?thesis by (simp add: element_focus_def)
next
  case False
  define s2 where "s2 = (case activeElement s of None \<Rightarrow> s | Some old \<Rightarrow> fire_focusout old s)
      \<lparr>activeElement := Some t\<rparr>"
  obtain f where "fire_focusin t s2 = s2\<lparr>focusedItem := f\<rparr>"
    using fire_focusin_eq by blast
  moreover have "element_focus t s = fire_focusin t s2"
    using False by (simp add: element_focus_def s2_def Let_def)
  ultimately show ?thesis by (simp add: s2_def)
qed

lemma matchesQuery_prefix:
  "matchesQuery q item =
     (prefix (''+'' @ toLowerCase q)
        (toLowerCase (idd_root (country item)
           @ (if length (idd_suffixes (country item)) = 1 then idd_suffixes (country item) ! 0 else [])))
      \<or> prefix (toLowerCase q) (toLowerCase (cca2 (country item)))
      \<or> prefix (toLowerCase q) (toLowerCase (name_common (country item))))"
proof (cases "idd_suffixes (country item)")
  case Nil
  then show ?thesis
    by (simp add: matchesQuery_def countryCodeOf_def startsWith_prefix Let_def)
next
  case (Cons x xs)
  then show ?thesis
    by (simp add: matchesQuery_def countryCodeOf_def startsWith_prefix Let_def)
qed

lemma handleDropdownSearch_open:
  assumes "listIsOpen s"
  shows "handleDropdownSearch e s =
     (let s1 = s\<lparr>searchQuery := nextQuery (key e) (searchQuery s)\<rparr>
      in if searchQuery s1 = [] then s1
         else (case find (matchesQuery (searchQuery s1)) (items s) of
                 None \<Rightarrow> s1
               | Some m \<Rightarrow> element_focus (ItemTarget (element m)) s1))"
  using assms by (simp add: handleDropdownSearch_def Let_def)

text \<open>
  C4.  On an open list, after a key that leaves the query non-empty: when some item matches,
  the focus is on the first matching item in the order of \<open>items\<close>; when none does, the
  focus is where it was.  An item matches when the lower-cased query, after a plus sign, is a
  prefix of its lower-cased dialing prefix (the root, then the suffix when there is exactly
  one), or is a prefix of its lower-cased ISO code or of its lower-cased common name.
\<close>

theorem handleDropdownSearch_focuses_first_match:
  fixes e :: KeyboardEvent and s :: PhonePrefix
  defines "s' \<equiv> handleDropdownSearch e s"
  defines "q \<equiv> toLowerCase (searchQuery s')"
  defines "matches \<equiv> \<lambda>c.
     prefix (''+'' @ q)
       (toLowerCase (idd_root c @ (if length (idd_suffixes c) = 1 then idd_suffixes c ! 0 else [])))
     \<or> prefix q (toLowerCase (cca2 c))
     \<or> prefix q (toLowerCase (name_common c))"
  assumes "listIsOpen s" and "searchQuery s' \<noteq> []"
  shows "(\<forall>i<length (items s).
            matches (country (items s ! i)) \<and> (\<forall>j<i. \<not> matches (country (items s ! j)))
            \<longrightarrow> activeElement s' = Some (ItemTarget (element (items s ! i))))
         \<and> ((\<forall>i<length (items s). \<not> matches (country (items s ! i)))
            \<longrightarrow> activeElement s' = activeElement s \<and> focusedItem s' = focusedItem s)"
proof -
  define s1 where "s1 = s\<lparr>searchQuery := nextQuery (key e) (searchQuery s)\<rparr>"
  have sq: "searchQuery s' = searchQuery s1"
    using searchQuery_handleDropdownSearch [of e s] assms(4) by (simp add: s'_def s1_def)
  have m: "matchesQuery (searchQuery s1) item = matches (country item)" for item
    unfolding matchesQuery_prefix matches_def q_def sq ..
  have ne: "searchQuery s1 \<noteq> []" using assms(5) sq by simp
  have run: "s' = (case find (matchesQuery (searchQuery s1)) (items s) of
                 None \<Rightarrow> s1
               | Some m \<Rightarrow> element_focus (ItemTarget (element m)) s1)"
  proof -
    have "handleDropdownSearch e s =
       (if searchQuery s1 = [] then s1
        else (case find (matchesQuery (searchQuery s1)) (items s) of
                None \<Rightarrow> s1
              | Some m \<Rightarrow> element_focus (ItemTarget (element m)) s1))"
      using handleDropdownSearch_open [OF assms(4), of e] unfolding Let_def s1_def .
    then show ?thesis using ne by (simp add: s'_def)
  qed
  show ?thesis
  proof (intro conjI allI impI)
    fix i
    assume i: "i < length (items s)"
      and first: "matches (country (items s ! i)) \<and> (\<forall>j<i. \<not> matches (country (items s ! j)))"
    have "find (matchesQuery (searchQuery s1)) (items s) = Some (items s ! i)"
      unfolding find_Some_iff using i first m by blast
    then have "s' = element_focus (ItemTarget (element (items s ! i))) s1"
      using run by simp
    then show "activeElement s' = Some (ItemTarget (element (items s ! i)))"
      by (simp add: activeElement_element_focus)
  next
    assume none: "\<forall>i<length (items s). \<not> matches (country (items s ! i))"
    have "find (matchesQuery (searchQuery s1)) (items s) = None"
      unfolding find_None_iff using none m by (metis in_set_conv_nth)
    then have "s' = s1" using run by simp
    then show "activeElement s' = activeElement s" and "focusedItem s' = focusedItem s"
      by (simp_all add: s1_def)
  qed
qed

lemmas string_eval = nextQuery_def isLetter_def isDigit_def digits_def lowerLetters_def
  upperLetters_def toLowerCase_def lowerChar_def

theorem handleDropdownSearch_focuses_first_match_witness:
  "listIsOpen (exampleWidget\<lparr>listIsOpen := True, searchQuery := ''f''\<rparr>)
   \<and> searchQuery (handleDropdownSearch \<lparr>key = ''r'', shiftKey = False\<rparr>
        (exampleWidget\<lparr>listIsOpen := True, searchQuery := ''f''\<rparr>)) = ''fr''
   \<and> activeElement (handleDropdownSearch \<lparr>key = ''r'', shiftKey = False\<rparr>
        (exampleWidget\<lparr>listIsOpen := True, searchQuery := ''f''\<rparr>)) = Some (ItemTarget 2)"
proof -
  let ?w = "exampleWidget\<lparr>listIsOpen := True, searchQuery := ''f''\<rparr>"
  let ?e = "\<lparr>key = ''r'', shiftKey = False\<rparr>"
  have op: "listIsOpen ?w" by simp
  have sq: "searchQuery (handleDropdownSearch ?e ?w) = ''fr''"
    by (simp add: searchQuery_handleDropdownSearch string_eval)
  have ne: "searchQuery (handleDropdownSearch ?e ?w) \<noteq> []"
    by (simp add: sq)
  have its: "items ?w = [itemUS, itemFR]" by (simp add: exampleWidget_def)
  have "activeElement (handleDropdownSearch ?e ?w) = Some (ItemTarget 2)"
    using handleDropdownSearch_focuses_first_match [OF op ne, THEN conjunct1, THEN spec, of 1]
    unfolding sq its
    by (simp add: itemUS_def itemFR_def US_def FR_def string_eval less_Suc_eq)
  then show ?thesis using op sq by simp
qed

section \<open>Arrow keys\<close>

lemma findIndexFrom_first:
  "i < length xs \<Longrightarrow> P (xs ! i) \<Longrightarrow> \<forall>j<i. \<not> P (xs ! j)
     \<Longrightarrow> findIndexFrom k P xs = k + int i"
proof (induction xs arbitrary: i k)
  case Nil
  then show ?case by simp
next
  case (Cons x xs)
  show ?case
  proof (cases i)
    case 0
    then show ?thesis using Cons.prems by simp
  next
    case (Suc n)
    have nx: "\<not> P x" using Cons.prems(3) Suc by auto
    have "findIndexFrom (k + 1) P xs = (k + 1) + int n"
    proof (rule Cons.IH)
      show "n < length xs" using Cons.prems(1) Suc by simp
      show "P (xs ! n)" using Cons.prems(2) Suc by simp
      show "\<forall>j<n. \<not> P (xs ! j)"
      proof (intro allI impI)
        fix j assume "j < n"
        then have "Suc j < i" using Suc by simp
        then have "\<not> P ((x # xs) ! Suc j)" using Cons.prems(3) by blast
        then show "\<not> P (xs ! j)" by simp
      qed
    qed
    then show ?thesis using nx Suc by simp
  qed
qed

lemma findIndex_distinct:
  assumes "distinct xs" and "i < length xs"
  shows "findIndex (\<lambda>x. x = xs ! i) xs = int i"
proof -
  have "\<forall>j<i. xs ! j \<noteq> xs ! i"
    using assms by (auto simp: nth_eq_iff_index_eq)
  then show ?thesis
    using findIndexFrom_first [of i xs "\<lambda>x. x = xs ! i" 0] assms(2)
    by (simp add: findIndex_def)
qed

text \<open>
  C5.  On an open list whose focused item is the one at index \<open>i\<close>: ArrowUp puts the focus
  on the item at index \<open>i - 1\<close>, and at index 0 on the item at index 0; ArrowDown puts it on
  the item at index \<open>i + 1\<close> when there is one; from the last item the next index is
  \<open>items.length\<close>, the entry read there is \<open>undefined\<close>, and the state, the focus with it,
  stays as it was.  While the search query is empty the \<open>keydown\<close> listener does on an arrow
  key what \<open>handleDropdownNavigation\<close> does.
\<close>

theorem handleDropdownNavigation_arrows:
  assumes "listIsOpen s" and "i < length (items s)"
    and "focusedItem s = Some (items s ! i)" and "distinct (items s)"
  shows "(key e = ''ArrowUp'' \<longrightarrow>
            handleDropdownNavigation e s
              = Inr (element_focus (ItemTarget (element (items s ! (i - 1)))) s)
            \<and> activeElement (element_focus (ItemTarget (element (items s ! (i - 1)))) s)
              = Some (ItemTarget (element (items s ! (i - 1)))))
         \<and> (key e = ''ArrowDown'' \<and> i + 1 < length (items s) \<longrightarrow>
            handleDropdownNavigation e s
              = Inr (element_focus (ItemTarget (element (items s ! (i + 1)))) s)
            \<and> activeElement (element_focus (ItemTarget (element (items s ! (i + 1)))) s)
              = Some (ItemTarget (element (items s ! (i + 1)))))
         \<and> (key e = ''ArrowDown'' \<and> i + 1 = length (items s) \<longrightarrow>
            array_at (items s) (int i + 1) = None
            \<and> handleDropdownNavigation e s = Inr s)
         \<and> ((key e = ''ArrowUp'' \<or> key e = ''ArrowDown'') \<and> searchQuery s = [] \<longrightarrow>
            keydown e s = handleDropdownNavigation e s)"
proof -
  have idx: "findIndex (\<lambda>item. item = items s ! i) (items s) = int i"
    using findIndex_distinct [OF assms(4) assms(2)] .
  have up: "handleDropdownNavigation e s
      = Inr (element_focus (ItemTarget (element (items s ! (i - 1)))) s)"
    if k: "key e = ''ArrowUp''"
  proof (cases i)
    case 0
    then show ?thesis
      using assms(1,2,3) k idx
      by (simp add: handleDropdownNavigation_def Let_def array_at_def)
  next
    case (Suc n)
    then have "nat (int i - 1) = n" by simp
    then show ?thesis
      using assms(1,2,3) k idx Suc
      by (simp add: handleDropdownNavigation_def Let_def array_at_def)
  qed
  have down: "handleDropdownNavigation e s
      = Inr (element_focus (ItemTarget (element (items s ! (i + 1)))) s)"
    if k: "key e = ''ArrowDown''" and lt: "i + 1 < length (items s)"
  proof -
    have "nat (int i + 1) = i + 1" by simp
    then show ?thesis
      using assms(1,2,3) k lt idx
      by (simp add: handleDropdownNavigation_def Let_def array_at_def)
  qed
  have last: "handleDropdownNavigation e s = Inr s"
    if k: "key e = ''ArrowDown''" and eq: "i + 1 = length (items s)"
  proof -
    have "int i + 1 = int (length (items s))" using eq by simp
    then show ?thesis
      using assms(1,2,3) k idx
      by (simp add: handleDropdownNavigation_def Let_def array_at_def)
  qed
  have out: "array_at (items s) (int i + 1) = None" if eq: "i + 1 = length (items s)"
  proof -
    have "int i + 1 = int (length (items s))" using eq by simp
    then show ?thesis by (simp add: array_at_def)
  qed
  have listener: "keydown e s = handleDropdownNavigation e s"
    if k: "(key e = ''ArrowUp'' \<or> key e = ''ArrowDown'') \<and> searchQuery s = []"
  proof -
    have "nextQuery (key e) (searchQuery s) = searchQuery s"
      using k by (auto simp: nextQuery_def)
    then have "handleDropdownSearch e s = s"
      using k by (simp add: handleDropdownSearch_def)
    then show ?thesis by (simp add: keydown_def)
  qed
  show ?thesis
    using up down last out listener by (simp add: activeElement_element_focus)
qed

theorem handleDropdownNavigation_arrows_witness:
  "listIsOpen (exampleWidget\<lparr>listIsOpen := True, focusedItem := Some itemFR\<rparr>)
   \<and> (1::nat) < length (items (exampleWidget\<lparr>listIsOpen := True, focusedItem := Some itemFR\<rparr>))
   \<and> distinct (items (exampleWidget\<lparr>listIsOpen := True, focusedItem := Some itemFR\<rparr>))
   \<and> handleDropdownNavigation \<lparr>key = ''ArrowDown'', shiftKey = False\<rparr>
        (exampleWidget\<lparr>listIsOpen := True, focusedItem := Some itemFR\<rparr>)
      = Inr (exampleWidget\<lparr>listIsOpen := True, focusedItem := Some itemFR\<rparr>)
   \<and> activeElement (element_focus (ItemTarget 1)
        (exampleWidget\<lparr>listIsOpen := True, focusedItem := Some itemFR\<rparr>)) = Some (ItemTarget 1)"
proof -
  let ?w = "exampleWidget\<lparr>listIsOpen := True, focusedItem := Some itemFR\<rparr>"
  have a1: "listIsOpen ?w" by simp
  have a2: "(1::nat) < length (items ?w)" by (simp add: exampleWidget_def)
  have a3: "focusedItem ?w = Some (items ?w ! 1)" by (simp add: exampleWidget_def)
  have a4: "distinct (items ?w)" by (simp add: exampleWidget_def itemUS_def itemFR_def)
  note th = handleDropdownNavigation_arrows [OF a1 a2 a3 a4]
  have down: "handleDropdownNavigation \<lparr>key = ''ArrowDown'', shiftKey = False\<rparr> ?w = Inr ?w"
    using th [of "\<lparr>key = ''ArrowDown'', shiftKey = False\<rparr>"]
    by (simp add: exampleWidget_def)
  have up: "activeElement (element_focus (ItemTarget 1) ?w) = Some (ItemTarget 1)"
    using th [of "\<lparr>key = ''ArrowUp'', shiftKey = False\<rparr>"]
    by (simp add: exampleWidget_def itemUS_def)
  show ?thesis using a1 a2 a4 down up by simp
qed

section \<open>The list opens\<close>

text \<open>
  C9.  When the observer's callback finds the list open, it throws exactly when nothing is
  selected and no item was rendered (it reads \<open>element\<close> of \<open>items[0]\<close>, which is
  \<open>undefined\<close>).  Otherwise it returns with the list marked open, the search query empty and
  the focus on the selected item's element or, when nothing is selected, on the first item's.
\<close>

theorem observerCallback_open:
  assumes "dropdownList s = Some True"
  shows "((\<exists>err. observerCallback s = Inl err) = (selectedItem s = None \<and> items s = []))
         \<and> (selectedItem s = None \<and> items s = [] \<longrightarrow> observerCallback s = Inl TypeError)
         \<and> (\<forall>sel. selectedItem s = Some sel \<longrightarrow>
               (\<exists>s'. observerCallback s = Inr s' \<and> listIsOpen s' \<and> searchQuery s' = []
                  \<and> activeElement s' = Some (ItemTarget (element sel))))
         \<and> (\<forall>first rest. selectedItem s = None \<and> items s = first # rest \<longrightarrow>
               (\<exists>s'. observerCallback s = Inr s' \<and> listIsOpen s' \<and> searchQuery s' = []
                  \<and> activeElement s' = Some (ItemTarget (element first))))"
proof -
  define s2 where "s2 = s\<lparr>listIsOpen := True, searchQuery := []\<rparr>"
  have foc: "listIsOpen (element_focus t s2) \<and> searchQuery (element_focus t s2) = []
      \<and> activeElement (element_focus t s2) = Some t" for t
  proof -
    obtain a f where "element_focus t s2 = s2\<lparr>activeElement := a, focusedItem := f\<rparr>"
      using element_focus_eq by blast
    then show ?thesis using activeElement_element_focus [of t s2] by (simp add: s2_def)
  qed
  have run: "observerCallback s =
      (case selectedItem s of
         Some sel \<Rightarrow> Inr (element_focus (ItemTarget (element sel)) s2)
       | None \<Rightarrow> (case items s of
                    [] \<Rightarrow> Inl TypeError
                  | first # _ \<Rightarrow> Inr (element_focus (ItemTarget (element first)) s2)))"
    using assms
    by (simp add: observerCallback_def clearSearchQuery_def s2_def Let_def
        split: option.splits list.splits)
  show ?thesis
    unfolding run using foc by (auto split: option.splits list.splits)
qed

theorem observerCallback_open_witness:
  "dropdownList (exampleWidget\<lparr>items := [], dropdownList := Some True\<rparr>) = Some True
   \<and> selectedItem (exampleWidget\<lparr>items := [], dropdownList := Some True\<rparr>) = None
   \<and> items (exampleWidget\<lparr>items := [], dropdownList := Some True\<rparr>) = []
   \<and> observerCallback (exampleWidget\<lparr>items := [], dropdownList := Some True\<rparr>) = Inl TypeError"
proof -
  let ?w = "exampleWidget\<lparr>items := [], dropdownList := Some True\<rparr>"
  have a: "dropdownList ?w = Some True" by simp
  have b: "selectedItem ?w = None" by (simp add: exampleWidget_def)
  have c: "items ?w = []" by simp
  show ?thesis
    using observerCallback_open [OF a] a b c by blast
qed

section \<open>Failed requests\<close>

text \<open>
  C6.  Neither request function ever returns an error.  When \<open>fetch\<close> is rejected, or the
  body cannot be read, \<open>fetchCountries\<close> returns the empty list and \<open>fetchUserLocation\<close>
  returns \<open>undefined\<close>.  Either function sends its one request and changes nothing else: no
  second request, nothing shown on the page.
\<close>

theorem fetches_swallow_failures:
  "(\<exists>countries. fst (fetchCountries net s) = Inr countries)
   \<and> (\<exists>location. fst (fetchUserLocation net s) = Inr location)
   \<and> ((\<exists>err. net = Inl err) \<or> (\<exists>response err. net = Inr response \<and> body_json response = Inl err)
        \<longrightarrow> fst (fetchCountries net s) = Inr [])
   \<and> ((\<exists>err. net = Inl err) \<or> (\<exists>response err. net = Inr response \<and> body_text response = Inl err)
        \<longrightarrow> fst (fetchUserLocation net s) = Inr None)
   \<and> snd (fetchCountries net s) = s\<lparr>effects := effects s @ [Fetch countriesUrl]\<rparr>
   \<and> snd (fetchUserLocation net s) = s\<lparr>effects := effects s @ [Fetch traceUrl]\<rparr>"
proof (intro conjI)
  show "\<exists>countries. fst (fetchCountries net s) = Inr countries"
    by (simp add: fetchCountries_def try_catch_def split: sum.splits)
  show "\<exists>location. fst (fetchUserLocation net s) = Inr location"
    by (simp add: fetchUserLocation_def try_catch_def split: sum.splits)
  show "(\<exists>err. net = Inl err) \<or> (\<exists>response err. net = Inr response \<and> body_json response = Inl err)
        \<longrightarrow> fst (fetchCountries net s) = Inr []"
    by (auto simp: fetchCountries_def try_catch_def)
  show "(\<exists>err. net = Inl err) \<or> (\<exists>response err. net = Inr response \<and> body_text response = Inl err)
        \<longrightarrow> fst (fetchUserLocation net s) = Inr None"
    by (auto simp: fetchUserLocation_def try_catch_def)
  show "snd (fetchCountries net s) = s\<lparr>effects := effects s @ [Fetch countriesUrl]\<rparr>"
    by (simp add: fetchCountries_def fetch_def)
  show "snd (fetchUserLocation net s) = s\<lparr>effects := effects s @ [Fetch traceUrl]\<rparr>"
    by (simp add: fetchUserLocation_def fetch_def)
qed

theorem fetches_swallow_failures_witness:
  "fst (fetchCountries (Inl NetworkError) exampleWidget) = Inr []
   \<and> fst (fetchUserLocation (Inl NetworkError) exampleWidget) = Inr None
   \<and> fst (fetchCountries (Inr (exampleResponse\<lparr>body_json := Inl SyntaxError\<rparr>)) exampleWidget) = Inr []
   \<and> fst (fetchUserLocation (Inr (exampleResponse\<lparr>body_text := Inl NetworkError\<rparr>)) exampleWidget)
       = Inr None"
proof -
  have a: "\<exists>err. (Inl NetworkError :: Response promise) = Inl err" by blast
  have b: "\<exists>response err. (Inr (exampleResponse\<lparr>body_json := Inl SyntaxError\<rparr>) :: Response promise)
      = Inr response \<and> body_json response = Inl err" by simp
  have c: "\<exists>response err. (Inr (exampleResponse\<lparr>body_text := Inl NetworkError\<rparr>) :: Response promise)
      = Inr response \<and> body_text response = Inl err" by simp
  show ?thesis
    using fetches_swallow_failures [of "Inl NetworkError" exampleWidget]
      fetches_swallow_failures [of "Inr (exampleResponse\<lparr>body_json := Inl SyntaxError\<rparr>)" exampleWidget]
      fetches_swallow_failures [of "Inr (exampleResponse\<lparr>body_text := Inl NetworkError\<rparr>)" exampleWidget]
      a b c
    by blast
qed

section \<open>Missing elements\<close>

lemma createCountryItem_dropdownList:
  "createCountryItem c t s = Inr (el, s') \<Longrightarrow> dropdownList s' = dropdownList s"
  by (auto simp: createCountryItem_def Let_def split: option.splits)

lemma createCountryItem_error: "createCountryItem c t s = Inl err \<Longrightarrow> err = TypeError"
  by (auto simp: createCountryItem_def Let_def split: option.splits)

lemma appendChild_dropdownList: "dropdownList (appendChild el s) = dropdownList s"
  by (simp add: appendChild_def split: option.splits)

lemma mapCountries_dropdownList:
  "mapCountries cs t s = Inr (its, s') \<Longrightarrow> dropdownList s' = dropdownList s"
proof (induction cs arbitrary: s its s')
  case Nil
  then show ?case by simp
next
  case (Cons c cs)
  from Cons.prems obtain el s1 rest where
    c1: "createCountryItem c t s = Inr (el, s1)"
    and c2: "mapCountries cs t (appendChild el s1) = Inr (rest, s')"
    by (auto split: sum.splits prod.splits)
  have "dropdownList s' = dropdownList (appendChild el s1)" using Cons.IH [OF c2] .
  then show ?case
    using createCountryItem_dropdownList [OF c1] by (simp add: appendChild_dropdownList)
qed

lemma mapCountries_error: "mapCountries cs t s = Inl err \<Longrightarrow> err = TypeError"
proof (induction cs arbitrary: s err)
  case Nil
  then show ?case by simp
next
  case (Cons c cs)
  show ?case
  proof (cases "createCountryItem c t s")
    case (Inl e)
    then show ?thesis using Cons.prems createCountryItem_error by simp
  next
    case (Inr p)
    obtain el s1 where p: "p = (el, s1)" by (cases p)
    show ?thesis
    proof (cases "mapCountries cs t (appendChild el s1)")
      case (Inl e)
      then have "e = TypeError" using Cons.IH by blast
      then show ?thesis using Cons.prems Inr p Inl by simp
    next
      case inr2: (Inr q)
      then show ?thesis using Cons.prems Inr p by (simp split: prod.splits)
    qed
  qed
qed

lemma renderOptions_error: "renderOptions cs s = Inl err \<Longrightarrow> err = TypeError"
  by (auto simp: renderOptions_def split: option.splits list.splits sum.splits prod.splits
      dest: mapCountries_error)

lemma renderOptions_dropdownList:
  "renderOptions cs s = Inr s' \<Longrightarrow> dropdownList s' = dropdownList s"
  by (auto simp: renderOptions_def removeChild_def
      split: option.splits list.splits sum.splits prod.splits
      dest: mapCountries_dropdownList)

lemma init_render_no_dropdownList:
  assumes "dropdownList s = None"
  shows "init_render net s = Inl TypeError"
proof -
  have "\<exists>cs. fst (fetchCountries net s) = Inr cs"
    by (simp add: fetchCountries_def try_catch_def split: sum.splits)
  then obtain cs where cs: "fst (fetchCountries net s) = Inr cs" by blast
  define s1 where "s1 = fetch countriesUrl s"
  have f: "fetchCountries net s = (Inr cs, s1)"
    using cs by (simp add: fetchCountries_def s1_def)
  have d1: "dropdownList s1 = None" using assms by (simp add: s1_def fetch_def)
  show ?thesis
  proof (cases "renderOptions cs s1")
    case (Inl e)
    then show ?thesis using f renderOptions_error [OF Inl] by (simp add: init_render_def)
  next
    case (Inr s2)
    have "dropdownList s2 = None" using renderOptions_dropdownList [OF Inr] d1 by simp
    then show ?thesis using f Inr by (simp add: init_render_def addEventListeners_def)
  qed
qed

text \<open>
  C8, as amended.  A missing toggle makes the constructor throw, at \<open>setAttribute\<close>, and only
  that does.  A missing list container makes \<open>renderOptions\<close> throw, and \<open>init\<close> with
  it; a missing dropdown list makes \<open>addEventListeners\<close> throw, and \<open>init\<close> with it.  A
  missing template item is guarded: \<open>renderOptions\<close> returns at once, with no error and the
  widget as it was.
\<close>

theorem missing_elements:
  "(constructor root input = Inl TypeError) = (root_toggle root = None)
   \<and> renderOptions countries (s\<lparr>list := None\<rparr>) = Inl TypeError
   \<and> init defaultCountryCode netCountries netTrace (s\<lparr>list := None\<rparr>) = Inl TypeError
   \<and> addEventListeners (s\<lparr>dropdownList := None\<rparr>) = Inl TypeError
   \<and> init defaultCountryCode netCountries netTrace (s\<lparr>dropdownList := None\<rparr>) = Inl TypeError
   \<and> renderOptions countries (s\<lparr>list := Some []\<rparr>) = Inr (s\<lparr>list := Some []\<rparr>)"
proof (intro conjI)
  show "(constructor root input = Inl TypeError) = (root_toggle root = None)"
    by (simp add: constructor_def split: option.splits)
  show "renderOptions countries (s\<lparr>list := None\<rparr>) = Inl TypeError"
    by (simp add: renderOptions_def)
  show "init defaultCountryCode netCountries netTrace (s\<lparr>list := None\<rparr>) = Inl TypeError"
    by (simp add: init_def init_render_def fetchCountries_def fetch_def renderOptions_def
        try_catch_def split: sum.splits)
  show "addEventListeners (s\<lparr>dropdownList := None\<rparr>) = Inl TypeError"
    by (simp add: addEventListeners_def)
  show "init defaultCountryCode netCountries netTrace (s\<lparr>dropdownList := None\<rparr>) = Inl TypeError"
    by (simp add: init_def init_render_no_dropdownList)
  show "renderOptions countries (s\<lparr>list := Some []\<rparr>) = Inr (s\<lparr>list := Some []\<rparr>)"
    by (simp add: renderOptions_def)
qed

text \<open>
  C8, as stated, fails for the template item: on the example page without a template item,
  \<open>renderOptions\<close> returns normally and renders nothing, and the whole of \<open>init\<close> runs to
  its end without an error.
\<close>

theorem missing_template_is_guarded:
  "renderOptions [US, FR] (exampleWidget\<lparr>items := [], list := Some []\<rparr>)
     = Inr (exampleWidget\<lparr>items := [], list := Some []\<rparr>)
   \<and> init (Some ''US'') (Inr exampleResponse) (Inr exampleResponse)
        (exampleWidget\<lparr>items := [], list := Some []\<rparr>)
     = Inr (exampleWidget\<lparr>items := [], list := Some [],
              effects := [Fetch countriesUrl, Fetch traceUrl]\<rparr>)"
  by (simp add: renderOptions_def init_def init_render_def fetchCountries_def fetch_def
      try_catch_def exampleResponse_def addEventListeners_def observeDropdownList_def
      fetchUserLocation_def init_select_def exampleWidget_def)

section \<open>Selecting an item\<close>

lemma handleItemSelect_same: "selectedItem s = Some item \<Longrightarrow> handleItemSelect item s = Inr s"
  by (simp add: handleItemSelect_def)

lemma closeDropdown_eq:
  "\<exists>a f. closeDropdown b s
     = s\<lparr>activeElement := a, focusedItem := f,
         effects := effects s @ [Dispatch ''click'', Dispatch ''mouseup'']\<rparr>"
proof (cases b)
  case True
  obtain a f where "element_focus ToggleTarget s = s\<lparr>activeElement := a, focusedItem := f\<rparr>"
    using element_focus_eq by blast
  then have "closeDropdown b s
     = s\<lparr>activeElement := a, focusedItem := f,
         effects := effects s @ [Dispatch ''click'', Dispatch ''mouseup'']\<rparr>"
    using True by (simp add: closeDropdown_def Let_def)
  then show ?thesis by blast
next
  case False
  then have "closeDropdown b s
     = s\<lparr>activeElement := activeElement s, focusedItem := focusedItem s,
         effects := effects s @ [Dispatch ''click'', Dispatch ''mouseup'']\<rparr>"
    by (simp add: closeDropdown_def Let_def)
  then show ?thesis by blast
qed

lemma activeElement_closeDropdown_True: "activeElement (closeDropdown True s) = Some ToggleTarget"
  by (simp add: closeDropdown_def Let_def activeElement_element_focus)

lemma handleItemSelect_fields:
  assumes "selectedItem s \<noteq> Some item"
    and "tg_flag (dropdownToggle s) = Some fl" and "tg_value (dropdownToggle s) = Some v"
  obtains s' where "handleItemSelect item s = Inr s'"
    and "selectedItem s' = Some item"
    and "elems s' = elems (toggleItemSelected item True
             (case selectedItem s of
                None \<Rightarrow> s
              | Some previous \<Rightarrow> toggleItemSelected previous False s))"
    and "dropdownToggle s' = (dropdownToggle s)
           \<lparr>tg_flag := Some (fl\<lparr>src := flags_svg (country item),
                                alt := name_common (country item) @ '' Flag''\<rparr>),
            tg_value := Some (countryCodeOf (country item)),
            tg_ariaLabel := Some (name_common (country item))\<rparr>"
    and "countryCodeInput s'
           = map_option (\<lambda>inp. inp\<lparr>inputValue := cca2 (country item)\<rparr>) (countryCodeInput s)"
    and "effects s' = effects s
           @ (if listIsOpen s then [Dispatch ''click'', Dispatch ''mouseup''] else [])"
    and "activeElement s' = (if listIsOpen s then Some ToggleTarget else activeElement s)"
    and "items s' = items s" and "listIsOpen s' = listIsOpen s"
    and "searchQuery s' = searchQuery s"
proof -
  define s1 where "s1 = (case selectedItem s of
      None \<Rightarrow> s | Some previous \<Rightarrow> toggleItemSelected previous False s)"
  define tg where "tg = (dropdownToggle s)
           \<lparr>tg_flag := Some (fl\<lparr>src := flags_svg (country item),
                                alt := name_common (country item) @ '' Flag''\<rparr>),
            tg_value := Some (countryCodeOf (country item)),
            tg_ariaLabel := Some (name_common (country item))\<rparr>"
  define s4 where "s4 = (toggleItemSelected item True s1)
      \<lparr>selectedItem := Some item, dropdownToggle := tg\<rparr>"
  define s5 where "s5 = (case countryCodeInput s4 of
      None \<Rightarrow> s4
    | Some inp \<Rightarrow> s4\<lparr>countryCodeInput := Some (inp\<lparr>inputValue := cca2 (country item)\<rparr>)\<rparr>)"
  have s1: "dropdownToggle s1 = dropdownToggle s" "countryCodeInput s1 = countryCodeInput s"
    "effects s1 = effects s" "activeElement s1 = activeElement s" "items s1 = items s"
    "listIsOpen s1 = listIsOpen s" "searchQuery s1 = searchQuery s"
    by (simp_all add: s1_def toggleItemSelected_def Let_def split: option.splits)
  have s4: "selectedItem s4 = Some item" "elems s4 = elems (toggleItemSelected item True
             (case selectedItem s of
                None \<Rightarrow> s
              | Some previous \<Rightarrow> toggleItemSelected previous False s))"
    "dropdownToggle s4 = tg" "countryCodeInput s4 = countryCodeInput s"
    "effects s4 = effects s" "activeElement s4 = activeElement s" "items s4 = items s"
    "listIsOpen s4 = listIsOpen s" "searchQuery s4 = searchQuery s"
    using s1 by (simp_all add: s4_def s1_def toggleItemSelected_def Let_def)
  have s5: "selectedItem s5 = Some item" "elems s5 = elems (toggleItemSelected item True
             (case selectedItem s of
                None \<Rightarrow> s
              | Some previous \<Rightarrow> toggleItemSelected previous False s))"
    "dropdownToggle s5 = tg"
    "countryCodeInput s5
       = map_option (\<lambda>inp. inp\<lparr>inputValue := cca2 (country item)\<rparr>) (countryCodeInput s)"
    "effects s5 = effects s" "activeElement s5 = activeElement s" "items s5 = items s"
    "listIsOpen s5 = listIsOpen s" "searchQuery s5 = searchQuery s"
    using s4 by (simp_all add: s5_def split: option.splits)
  have upd: "updateDropdownToggle item (dropdownToggle (toggleItemSelected item True s1)) = Inr tg"
    using assms(2,3) s1(1)
    by (simp add: updateDropdownToggle_def tg_def toggleItemSelected_def Let_def)
  have run: "handleItemSelect item s = Inr (if listIsOpen s5 then closeDropdown True s5 else s5)"
    using assms(1) upd
    by (simp add: handleItemSelect_def Let_def s1_def [symmetric] s4_def [symmetric]
        s5_def [symmetric])
  show thesis
  proof (cases "listIsOpen s")
    case False
    then have "handleItemSelect item s = Inr s5" using run s5(8) by simp
    then show thesis using that [of s5] s5 False by (simp add: tg_def)
  next
    case True
    obtain a f where cl: "closeDropdown True s5
        = s5\<lparr>activeElement := a, focusedItem := f,
             effects := effects s5 @ [Dispatch ''click'', Dispatch ''mouseup'']\<rparr>"
      using closeDropdown_eq by blast
    have act: "activeElement (closeDropdown True s5) = Some ToggleTarget"
      by (rule activeElement_closeDropdown_True)
    have "handleItemSelect item s = Inr (closeDropdown True s5)" using run s5(8) True by simp
    moreover have "selectedItem (closeDropdown True s5) = Some item"
      "elems (closeDropdown True s5) = elems (toggleItemSelected item True
             (case selectedItem s of
                None \<Rightarrow> s
              | Some previous \<Rightarrow> toggleItemSelected previous False s))"
      "dropdownToggle (closeDropdown True s5) = tg"
      "countryCodeInput (closeDropdown True s5)
         = map_option (\<lambda>inp. inp\<lparr>inputValue := cca2 (country item)\<rparr>) (countryCodeInput s)"
      "effects (closeDropdown True s5) = effects s @ [Dispatch ''click'', Dispatch ''mouseup'']"
      "items (closeDropdown True s5) = items s" "listIsOpen (closeDropdown True s5) = listIsOpen s"
      "searchQuery (closeDropdown True s5) = searchQuery s"
      unfolding cl using s5 by simp_all
    ultimately show thesis using that [of "closeDropdown True s5"] act True by (simp add: tg_def)
  qed
qed

lemma classList_toggle_True: "c \<in> set (classList_toggle c True cl)"
  by (simp add: classList_toggle_def)

lemma classList_toggle_False: "c \<notin> set (classList_toggle c False cl)"
  by (simp add: classList_toggle_def)

lemma filter_eq_absent: "a \<notin> set xs \<Longrightarrow> filter (\<lambda>x. x = a) xs = []"
  by (induction xs) auto

lemma length_filter_eq_distinct: "distinct xs \<Longrightarrow> length (filter (\<lambda>x. x = a) xs) \<le> 1"
  by (induction xs) (auto simp: filter_eq_absent)

lemma selectionConsistent_at_most_one:
  assumes "selectionConsistent s" and "distinct (items s)"
  shows "length (filter (markedSelected s) (items s)) \<le> 1"
proof (cases "selectedItem s")
  case None
  then have "filter (markedSelected s) (items s) = []"
    using assms(1) by (auto simp: selectionConsistent_def list_all_iff filter_empty_conv)
  then show ?thesis by simp
next
  case (Some sel)
  have "filter (markedSelected s) (items s) = filter (\<lambda>x. x = sel) (items s)"
    using assms(1) Some by (intro filter_cong) (auto simp: selectionConsistent_def list_all_iff)
  then show ?thesis using length_filter_eq_distinct [OF assms(2)] by simp
qed

text \<open>
  C3.  On a toggle that has its flag and its value child.  Selecting the selected item changes
  nothing.  Selecting another item, whose element is not the previous selection's, returns a
  state in which: the item is \<open>selectedItem\<close>; its element has the class \<open>w--current\<close>
  and \<open>aria-selected\<close> \<open>true\<close>; the previous selection's element, when there was one, has
  lost the class and has \<open>aria-selected\<close> \<open>false\<close>; every other element is as it was; the
  toggle shows the country's flag, its code (the root, then the suffix when there is exactly
  one) and its name; the bound input, when present, holds the ISO code; and \<open>click\<close> and
  \<open>mouseup\<close> are dispatched on the toggle exactly when the list was open.  When the marker
  was on the selected item only, the item is one of \<open>items\<close> and the items' elements are
  distinct, the marker is again on the selected item only, so at most one item carries it.
\<close>

theorem handleItemSelect_selects:
  assumes "tg_flag (dropdownToggle s) = Some fl" and "tg_value (dropdownToggle s) = Some v"
  shows "(selectedItem s = Some item \<longrightarrow> handleItemSelect item s = Inr s)
    \<and> (selectedItem s \<noteq> Some item
          \<and> (\<forall>previous. selectedItem s = Some previous \<longrightarrow> element previous \<noteq> element item)
        \<longrightarrow> (\<exists>s'. handleItemSelect item s = Inr s'
              \<and> selectedItem s' = Some item
              \<and> elems s' (element item)
                  = (elems s (element item))
                      \<lparr>classList := classList_toggle dropdownItemSelected True
                                      (classList (elems s (element item))),
                       ariaSelected := Some ''true''\<rparr>
              \<and> dropdownItemSelected \<in> set (classList (elems s' (element item)))
              \<and> (\<forall>previous. selectedItem s = Some previous \<longrightarrow>
                    elems s' (element previous)
                      = (elems s (element previous))
                          \<lparr>classList := removeAll dropdownItemSelected
                                          (classList (elems s (element previous))),
                           ariaSelected := Some ''false''\<rparr>)
              \<and> (\<forall>el. el \<noteq> element item
                        \<and> (\<forall>previous. selectedItem s = Some previous \<longrightarrow> el \<noteq> element previous)
                    \<longrightarrow> elems s' el = elems s el)
              \<and> dropdownToggle s'
                  = (dropdownToggle s)
                      \<lparr>tg_flag := Some (fl\<lparr>src := flags_svg (country item),
                                           alt := name_common (country item) @ '' Flag''\<rparr>),
                       tg_value := Some (idd_root (country item)
                          @ (if length (idd_suffixes (country item)) = 1
                             then idd_suffixes (country item) ! 0 else [])),
                       tg_ariaLabel := Some (name_common (country item))\<rparr>
              \<and> countryCodeInput s'
                  = map_option (\<lambda>inp. inp\<lparr>inputValue := cca2 (country item)\<rparr>)
                      (countryCodeInput s)
              \<and> effects s' = effects s
                  @ (if listIsOpen s then [Dispatch ''click'', Dispatch ''mouseup''] else [])
              \<and> items s' = items s
              \<and> (selectionConsistent s \<and> item \<in> set (items s)
                    \<and> distinct (map element (items s))
                  \<longrightarrow> selectionConsistent s'
                      \<and> length (filter (markedSelected s') (items s')) \<le> 1)))"
proof (intro conjI impI)
  assume "selectedItem s = Some item"
  then show "handleItemSelect item s = Inr s" by (rule handleItemSelect_same)
next
  assume pre: "selectedItem s \<noteq> Some item
      \<and> (\<forall>previous. selectedItem s = Some previous \<longrightarrow> element previous \<noteq> element item)"
  then have new: "selectedItem s \<noteq> Some item"
    and noalias: "\<And>previous. selectedItem s = Some previous \<Longrightarrow> element previous \<noteq> element item"
    by blast+
  obtain s' where run: "handleItemSelect item s = Inr s'"
    and sel: "selectedItem s' = Some item"
    and store: "elems s' = elems (toggleItemSelected item True
             (case selectedItem s of
                None \<Rightarrow> s
              | Some previous \<Rightarrow> toggleItemSelected previous False s))"
    and tg: "dropdownToggle s' = (dropdownToggle s)
           \<lparr>tg_flag := Some (fl\<lparr>src := flags_svg (country item),
                                alt := name_common (country item) @ '' Flag''\<rparr>),
            tg_value := Some (countryCodeOf (country item)),
            tg_ariaLabel := Some (name_common (country item))\<rparr>"
    and inp: "countryCodeInput s'
           = map_option (\<lambda>inp. inp\<lparr>inputValue := cca2 (country item)\<rparr>) (countryCodeInput s)"
    and eff: "effects s' = effects s
           @ (if listIsOpen s then [Dispatch ''click'', Dispatch ''mouseup''] else [])"
    and its: "items s' = items s"
    using handleItemSelect_fields [OF new assms] by metis
  have code: "countryCodeOf (country item) = idd_root (country item)
      @ (if length (idd_suffixes (country item)) = 1 then idd_suffixes (country item) ! 0 else [])"
    by (cases "idd_suffixes (country item)") (simp_all add: countryCodeOf_def)
  have at_item: "elems s' (element item)
      = (elems s (element item))
          \<lparr>classList := classList_toggle dropdownItemSelected True
                          (classList (elems s (element item))),
           ariaSelected := Some ''true''\<rparr>"
    unfolding store using noalias
    by (cases "selectedItem s") (simp_all add: toggleItemSelected_def Let_def)
  have marked: "dropdownItemSelected \<in> set (classList (elems s' (element item)))"
    unfolding at_item by (simp add: classList_toggle_True)
  have at_prev: "elems s' (element previous)
      = (elems s (element previous))
          \<lparr>classList := removeAll dropdownItemSelected (classList (elems s (element previous))),
           ariaSelected := Some ''false''\<rparr>"
    if "selectedItem s = Some previous" for previous
    unfolding store using that noalias [OF that]
    by (simp add: toggleItemSelected_def Let_def classList_toggle_def)
  have at_other: "elems s' el = elems s el"
    if "el \<noteq> element item
        \<and> (\<forall>previous. selectedItem s = Some previous \<longrightarrow> el \<noteq> element previous)" for el
    unfolding store using that
    by (cases "selectedItem s") (simp_all add: toggleItemSelected_def Let_def)
  have inv: "selectionConsistent s' \<and> length (filter (markedSelected s') (items s')) \<le> 1"
    if h: "selectionConsistent s \<and> item \<in> set (items s) \<and> distinct (map element (items s))"
  proof -
    have cons: "\<And>it. it \<in> set (items s) \<Longrightarrow> markedSelected s it = (selectedItem s = Some it)"
      using h by (simp add: selectionConsistent_def list_all_iff)
    have inj: "\<And>it. it \<in> set (items s) \<Longrightarrow> it \<noteq> item \<Longrightarrow> element it \<noteq> element item"
      using h by (meson distinct_map inj_onD)
    have "markedSelected s' it = (selectedItem s' = Some it)" if it: "it \<in> set (items s)" for it
    proof (cases "it = item")
      case True
      then show ?thesis using marked sel by (simp add: markedSelected_def)
    next
      case False
      note ne = inj [OF it False]
      have "\<not> markedSelected s' it"
      proof (cases "\<exists>previous. selectedItem s = Some previous \<and> element it = element previous")
        case True
        then obtain previous where p: "selectedItem s = Some previous"
          and e: "element it = element previous" by blast
        show ?thesis
          unfolding markedSelected_def e at_prev [OF p] by simp
      next
        case no: False
        then have "elems s' (element it) = elems s (element it)"
          using at_other [of "element it"] ne by blast
        moreover have "selectedItem s \<noteq> Some it" using no by blast
        ultimately show ?thesis using cons [OF it] by (simp add: markedSelected_def)
      qed
      then show ?thesis using sel False by simp
    qed
    then have c': "selectionConsistent s'"
      by (simp add: selectionConsistent_def list_all_iff its)
    have "distinct (items s')" using h its by (simp add: distinct_map)
    then show ?thesis using c' selectionConsistent_at_most_one by blast
  qed
  show "\<exists>s'. handleItemSelect item s = Inr s'
              \<and> selectedItem s' = Some item
              \<and> elems s' (element item)
                  = (elems s (element item))
                      \<lparr>classList := classList_toggle dropdownItemSelected True
                                      (classList (elems s (element item))),
                       ariaSelected := Some ''true''\<rparr>
              \<and> dropdownItemSelected \<in> set (classList (elems s' (element item)))
              \<and> (\<forall>previous. selectedItem s = Some previous \<longrightarrow>
                    elems s' (element previous)
                      = (elems s (element previous))
                          \<lparr>classList := removeAll dropdownItemSelected
                                          (classList (elems s (element previous))),
                           ariaSelected := Some ''false''\<rparr>)
              \<and> (\<forall>el. el \<noteq> element item
                        \<and> (\<forall>previous. selectedItem s = Some previous \<longrightarrow> el \<noteq> element previous)
                    \<longrightarrow> elems s' el = elems s el)
              \<and> dropdownToggle s'
                  = (dropdownToggle s)
                      \<lparr>tg_flag := Some (fl\<lparr>src := flags_svg (country item),
                                           alt := name_common (country item) @ '' Flag''\<rparr>),
                       tg_value := Some (idd_root (country item)
                          @ (if length (idd_suffixes (country item)) = 1
                             then idd_suffixes (country item) ! 0 else [])),
                       tg_ariaLabel := Some (name_common (country item))\<rparr>
              \<and> countryCodeInput s'
                  = map_option (\<lambda>inp. inp\<lparr>inputValue := cca2 (country item)\<rparr>)
                      (countryCodeInput s)
              \<and> effects s' = effects s
                  @ (if listIsOpen s then [Dispatch ''click'', Dispatch ''mouseup''] else [])
              \<and> items s' = items s
              \<and> (selectionConsistent s \<and> item \<in> set (items s)
                    \<and> distinct (map element (items s))
                  \<longrightarrow> selectionConsistent s'
                      \<and> length (filter (markedSelected s') (items s')) \<le> 1)"
  proof (intro exI [of _ s'] conjI allI impI)
    show "handleItemSelect item s = Inr s'" by (rule run)
    show "selectedItem s' = Some item" by (rule sel)
    show "elems s' (element item)
                  = (elems s (element item))
                      \<lparr>classList := classList_toggle dropdownItemSelected True
                                      (classList (elems s (element item))),
                       ariaSelected := Some ''true''\<rparr>" by (rule at_item)
    show "dropdownItemSelected \<in> set (classList (elems s' (element item)))" by (rule marked)
    show "dropdownToggle s'
                  = (dropdownToggle s)
                      \<lparr>tg_flag := Some (fl\<lparr>src := flags_svg (country item),
                                           alt := name_common (country item) @ '' Flag''\<rparr>),
                       tg_value := Some (idd_root (country item)
                          @ (if length (idd_suffixes (country item)) = 1
                             then idd_suffixes (country item) ! 0 else [])),
                       tg_ariaLabel := Some (name_common (country item))\<rparr>"
      unfolding tg code ..
    show "countryCodeInput s'
                  = map_option (\<lambda>inp. inp\<lparr>inputValue := cca2 (country item)\<rparr>)
                      (countryCodeInput s)" by (rule inp)
    show "effects s' = effects s
                  @ (if listIsOpen s then [Dispatch ''click'', Dispatch ''mouseup''] else [])"
      by (rule eff)
    show "items s' = items s" by (rule its)
  next
    fix previous assume "selectedItem s = Some previous"
    then show "elems s' (element previous)
                      = (elems s (element previous))
                          \<lparr>classList := removeAll dropdownItemSelected
                                          (classList (elems s (element previous))),
                           ariaSelected := Some ''false''\<rparr>" by (rule at_prev)
  next
    fix el assume "el \<noteq> element item
        \<and> (\<forall>previous. selectedItem s = Some previous \<longrightarrow> el \<noteq> element previous)"
    then show "elems s' el = elems s el" by (rule at_other)
  next
    assume h: "selectionConsistent s \<and> item \<in> set (items s) \<and> distinct (map element (items s))"
    show "selectionConsistent s'" using inv [OF h] by blast
    show "length (filter (markedSelected s') (items s')) \<le> 1" using inv [OF h] by blast
  qed
qed

theorem handleItemSelect_selects_witness:
  "tg_flag (dropdownToggle exampleSelectedUS) = Some \<lparr>src = [], alt = []\<rparr>
   \<and> tg_value (dropdownToggle exampleSelectedUS) = Some []
   \<and> selectedItem exampleSelectedUS = Some itemUS
   \<and> element itemUS \<noteq> element itemFR
   \<and> selectionConsistent exampleSelectedUS
   \<and> (\<exists>s'. handleItemSelect itemFR exampleSelectedUS = Inr s'
          \<and> selectedItem s' = Some itemFR
          \<and> classList (elems s' 1) = [''w-dropdown-link'']
          \<and> ariaSelected (elems s' 1) = Some ''false''
          \<and> classList (elems s' 2) = [''w-dropdown-link'', ''w--current'']
          \<and> ariaSelected (elems s' 2) = Some ''true''
          \<and> tg_value (dropdownToggle s') = Some ''+33''
          \<and> countryCodeInput s' = Some \<lparr>inputValue = ''FR''\<rparr>
          \<and> effects s' = [Dispatch ''click'', Dispatch ''mouseup'']
          \<and> length (filter (markedSelected s') (items s')) \<le> 1)"
proof -
  let ?w = exampleSelectedUS
  have a: "tg_flag (dropdownToggle ?w) = Some \<lparr>src = [], alt = []\<rparr>"
    by (simp add: exampleSelectedUS_def exampleWidget_def exampleToggle_def)
  have b: "tg_value (dropdownToggle ?w) = Some []"
    by (simp add: exampleSelectedUS_def exampleWidget_def exampleToggle_def)
  have c: "selectedItem ?w = Some itemUS" by (simp add: exampleSelectedUS_def)
  have d: "element itemUS \<noteq> element itemFR" by (simp add: itemUS_def itemFR_def)
  have its: "items ?w = [itemUS, itemFR]" by (simp add: exampleSelectedUS_def exampleWidget_def)
  have e: "selectionConsistent ?w"
    unfolding selectionConsistent_def its
    by (simp add: markedSelected_def dropdownItemSelected_def exampleSelectedUS_def
        itemUS_def itemFR_def templateElement_def)
  have pre: "selectedItem ?w \<noteq> Some itemFR
      \<and> (\<forall>previous. selectedItem ?w = Some previous \<longrightarrow> element previous \<noteq> element itemFR)"
    using c d by (auto simp: itemUS_def itemFR_def)
  have inv: "selectionConsistent ?w \<and> itemFR \<in> set (items ?w) \<and> distinct (map element (items ?w))"
    using e by (simp add: its itemUS_def itemFR_def)
  obtain s' where run: "handleItemSelect itemFR ?w = Inr s'"
    and sel: "selectedItem s' = Some itemFR"
    and new: "elems s' (element itemFR)
        = (elems ?w (element itemFR))
            \<lparr>classList := classList_toggle dropdownItemSelected True
                            (classList (elems ?w (element itemFR))),
             ariaSelected := Some ''true''\<rparr>"
    and old: "\<forall>previous. selectedItem ?w = Some previous \<longrightarrow>
        elems s' (element previous)
          = (elems ?w (element previous))
              \<lparr>classList := removeAll dropdownItemSelected
                              (classList (elems ?w (element previous))),
               ariaSelected := Some ''false''\<rparr>"
    and tg: "dropdownToggle s'
        = (dropdownToggle ?w)
            \<lparr>tg_flag := Some (\<lparr>src = [], alt = []\<rparr>\<lparr>src := flags_svg (country itemFR),
                                 alt := name_common (country itemFR) @ '' Flag''\<rparr>),
             tg_value := Some (idd_root (country itemFR)
                @ (if length (idd_suffixes (country itemFR)) = 1
                   then idd_suffixes (country itemFR) ! 0 else [])),
             tg_ariaLabel := Some (name_common (country itemFR))\<rparr>"
    and inp: "countryCodeInput s'
        = map_option (\<lambda>inp. inp\<lparr>inputValue := cca2 (country itemFR)\<rparr>) (countryCodeInput ?w)"
    and eff: "effects s' = effects ?w
        @ (if listIsOpen ?w then [Dispatch ''click'', Dispatch ''mouseup''] else [])"
    and one: "selectionConsistent ?w \<and> itemFR \<in> set (items ?w)
          \<and> distinct (map element (items ?w))
        \<longrightarrow> selectionConsistent s' \<and> length (filter (markedSelected s') (items s')) \<le> 1"
    using handleItemSelect_selects [OF a b, of itemFR, THEN conjunct2, THEN mp, OF pre] by blast
  have prev: "elems s' (element itemUS)
          = (elems ?w (element itemUS))
              \<lparr>classList := removeAll dropdownItemSelected
                              (classList (elems ?w (element itemUS))),
               ariaSelected := Some ''false''\<rparr>"
    using old c by blast
  have e1: "elems s' 1 = templateElement\<lparr>classList := [''w-dropdown-link''],
      ariaSelected := Some ''false''\<rparr>"
    using prev
    by (simp add: itemUS_def exampleSelectedUS_def templateElement_def dropdownItemSelected_def)
  have e2: "elems s' 2 = templateElement\<lparr>classList := [''w-dropdown-link'', ''w--current''],
      ariaSelected := Some ''true''\<rparr>"
    using new
    by (simp add: itemFR_def exampleSelectedUS_def templateElement_def dropdownItemSelected_def
        classList_toggle_def)
  have "classList (elems s' 1) = [''w-dropdown-link'']"
    and "ariaSelected (elems s' 1) = Some ''false''"
    and "classList (elems s' 2) = [''w-dropdown-link'', ''w--current'']"
    and "ariaSelected (elems s' 2) = Some ''true''"
    unfolding e1 e2 by simp_all
  moreover have "tg_value (dropdownToggle s') = Some ''+33''"
    unfolding tg by (simp add: itemFR_def FR_def)
  moreover have "countryCodeInput s' = Some \<lparr>inputValue = ''FR''\<rparr>"
    unfolding inp by (simp add: exampleSelectedUS_def exampleWidget_def itemFR_def FR_def)
  moreover have "effects s' = [Dispatch ''click'', Dispatch ''mouseup'']"
    unfolding eff by (simp add: exampleSelectedUS_def exampleWidget_def)
  moreover have "length (filter (markedSelected s') (items s')) \<le> 1"
    using one inv by blast
  ultimately show ?thesis using a b c d e run sel by blast
qed

section \<open>Rendering the options\<close>

lemma constructor_examplePage:
  "constructor exampleRoot (Some \<lparr>inputValue = []\<rparr>) = Inr examplePage"
  by (simp add: constructor_def exampleRoot_def examplePage_def)

lemma createCountryItem_run:
  assumes "flagChild (elems s t) = Some fl" and "valueChild (elems s t) = Some v"
  shows "createCountryItem c t s
     = Inr (nextId s, s\<lparr>elems := (elems s)(nextId s := fillItemElement c fl (elems s t)),
                        nextId := Suc (nextId s)\<rparr>)"
  using assms by (simp add: createCountryItem_def Let_def)

lemma mapCountries_run:
  assumes "t < nextId s" and "flagChild (elems s t) = Some fl"
    and "valueChild (elems s t) = Some v" and "list s = Some ch"
  shows "\<exists>s'. mapCountries cs t s
       = Inr (map (\<lambda>(el, c). \<lparr>element = el, country = c\<rparr>)
                (zip [nextId s..<nextId s + length cs] cs), s')
     \<and> list s' = Some (ch @ [nextId s..<nextId s + length cs])
     \<and> (\<forall>i<length cs. elems s' (nextId s + i) = fillItemElement (cs ! i) fl (elems s t))
     \<and> (\<forall>el<nextId s. elems s' el = elems s el)"
  using assms
proof (induction cs arbitrary: s ch)
  case Nil
  then show ?case by simp
next
  case (Cons c cs)
  define s1 where "s1 = s\<lparr>elems := (elems s)(nextId s := fillItemElement c fl (elems s t)),
      nextId := Suc (nextId s)\<rparr>"
  define s2 where "s2 = appendChild (nextId s) s1"
  have c1: "createCountryItem c t s = Inr (nextId s, s1)"
    using createCountryItem_run [OF Cons.prems(2,3)] by (simp add: s1_def)
  have s2: "s2 = s1\<lparr>list := Some (ch @ [nextId s])\<rparr>"
    using Cons.prems(4) by (simp add: s2_def appendChild_def s1_def)
  have n2: "nextId s2 = Suc (nextId s)" by (simp add: s2 s1_def)
  have e2: "elems s2 = (elems s)(nextId s := fillItemElement c fl (elems s t))"
    by (simp add: s2 s1_def)
  have t2: "elems s2 t = elems s t" using Cons.prems(1) by (simp add: e2)
  have "\<exists>s'. mapCountries cs t s2
       = Inr (map (\<lambda>(el, c). \<lparr>element = el, country = c\<rparr>)
                (zip [nextId s2..<nextId s2 + length cs] cs), s')
     \<and> list s' = Some ((ch @ [nextId s]) @ [nextId s2..<nextId s2 + length cs])
     \<and> (\<forall>i<length cs. elems s' (nextId s2 + i) = fillItemElement (cs ! i) fl (elems s2 t))
     \<and> (\<forall>el<nextId s2. elems s' el = elems s2 el)"
  proof (rule Cons.IH)
    show "t < nextId s2" using Cons.prems(1) n2 by simp
    show "flagChild (elems s2 t) = Some fl" using Cons.prems(2) t2 by simp
    show "valueChild (elems s2 t) = Some v" using Cons.prems(3) t2 by simp
    show "list s2 = Some (ch @ [nextId s])" by (simp add: s2)
  qed
  then obtain s' where run: "mapCountries cs t s2
       = Inr (map (\<lambda>(el, c). \<lparr>element = el, country = c\<rparr>)
                (zip [Suc (nextId s)..<Suc (nextId s) + length cs] cs), s')"
    and ls: "list s' = Some ((ch @ [nextId s]) @ [Suc (nextId s)..<Suc (nextId s) + length cs])"
    and new: "\<forall>i<length cs. elems s' (Suc (nextId s) + i) = fillItemElement (cs ! i) fl (elems s t)"
    and old: "\<forall>el<Suc (nextId s). elems s' el = elems s2 el"
    unfolding n2 t2 by blast
  have upt: "[nextId s..<nextId s + length (c # cs)]
      = nextId s # [Suc (nextId s)..<Suc (nextId s) + length cs]"
    by (simp add: upt_rec)
  have r1: "mapCountries (c # cs) t s
       = Inr (map (\<lambda>(el, c). \<lparr>element = el, country = c\<rparr>)
                (zip [nextId s..<nextId s + length (c # cs)] (c # cs)), s')"
    unfolding upt using c1 run by (simp add: s2_def)
  have r2: "list s' = Some (ch @ [nextId s..<nextId s + length (c # cs)])"
    unfolding upt using ls by simp
  have r3: "elems s' (nextId s + i) = fillItemElement ((c # cs) ! i) fl (elems s t)"
    if "i < length (c # cs)" for i
  proof (cases i)
    case 0
    have "elems s' (nextId s) = elems s2 (nextId s)" using old by simp
    then show ?thesis using 0 by (simp add: e2)
  next
    case (Suc j)
    then have "j < length cs" using that by simp
    then show ?thesis using new Suc by simp
  qed
  have r4: "elems s' el = elems s el" if "el < nextId s" for el
  proof -
    have "elems s' el = elems s2 el" using old that by simp
    then show ?thesis using that by (simp add: e2)
  qed
  show ?case using r1 r2 r3 r4 by blast
qed

lemma map_item_zip:
  "length els = length cs \<Longrightarrow>
     map element (map (\<lambda>(el, c). \<lparr>element = el, country = c\<rparr>) (zip els cs)) = els
     \<and> map country (map (\<lambda>(el, c). \<lparr>element = el, country = c\<rparr>) (zip els cs)) = cs"
  by (induction els cs rule: list_induct2) simp_all

text \<open>
  C7, as amended.  On a list container whose first item element is the template, with its
  flag and value children: \<open>renderOptions\<close> returns, with one item per country, in the
  order of the countries, each on a fresh element of its own; the template has left the list
  container, which holds the new elements after the children it had; and each new element is
  the template with the flag's source and alternative text set, the value text set to the ISO
  code, a space, and in parentheses the root followed by the suffix when there is exactly
  one, and \<open>aria-label\<close> and \<open>title\<close> set to the common name.  No plus sign is added:
  the text has one only when the root has.
\<close>

theorem renderOptions_renders:
  assumes "list s = Some (listItem # rest)" and "listItem < nextId s"
    and "flagChild (elems s listItem) = Some fl" and "valueChild (elems s listItem) = Some v"
  shows "\<exists>s'. renderOptions countries s = Inr s'
     \<and> map country (items s') = countries
     \<and> map element (items s') = [nextId s..<nextId s + length countries]
     \<and> list s' = Some (rest @ map element (items s'))
     \<and> elems s' listItem = elems s listItem
     \<and> (\<forall>i<length countries.
           elems s' (element (items s' ! i))
             = (elems s listItem)
                 \<lparr>flagChild := Some (fl\<lparr>src := flags_svg (countries ! i),
                                        alt := name_common (countries ! i) @ '' Flag''\<rparr>),
                  valueChild := Some (cca2 (countries ! i) @ '' (''
                     @ idd_root (countries ! i)
                     @ (if length (idd_suffixes (countries ! i)) = 1
                        then idd_suffixes (countries ! i) ! 0 else [])
                     @ '')''),
                  ariaLabel := Some (name_common (countries ! i)),
                  titleAttr := Some (name_common (countries ! i))\<rparr>)"
proof -
  define n where "n = nextId s"
  define its where "its = map (\<lambda>(el, c). \<lparr>element = el, country = c\<rparr>)
      (zip [n..<n + length countries] countries)"
  obtain s1 where run: "mapCountries countries listItem s = Inr (its, s1)"
    and ls: "list s1 = Some ((listItem # rest) @ [n..<n + length countries])"
    and new: "\<forall>i<length countries.
        elems s1 (n + i) = fillItemElement (countries ! i) fl (elems s listItem)"
    and old: "\<forall>el<n. elems s1 el = elems s el"
    using mapCountries_run [OF assms(2,3,4,1), of countries] unfolding n_def its_def by blast
  define s' where "s' = removeChild listItem (s1\<lparr>items := its\<rparr>)"
  have r0: "renderOptions countries s = Inr s'"
    using assms(1) run by (simp add: renderOptions_def s'_def)
  have its': "items s' = its" by (simp add: s'_def removeChild_def split: option.splits)
  have el': "elems s' = elems s1" by (simp add: s'_def removeChild_def split: option.splits)
  have me: "map element its = [n..<n + length countries]" and mc: "map country its = countries"
    unfolding its_def using map_item_zip [of "[n..<n + length countries]" countries] by simp_all
  have r3: "list s' = Some (rest @ map element (items s'))"
    using ls by (simp add: s'_def removeChild_def its' me)
  have r4: "elems s' listItem = elems s listItem"
    using old assms(2) by (simp add: el' n_def)
  have code: "countryCodeOf c = idd_root c
      @ (if length (idd_suffixes c) = 1 then idd_suffixes c ! 0 else [])" for c
    by (cases "idd_suffixes c") (simp_all add: countryCodeOf_def)
  have r5: "elems s' (element (items s' ! i))
             = (elems s listItem)
                 \<lparr>flagChild := Some (fl\<lparr>src := flags_svg (countries ! i),
                                        alt := name_common (countries ! i) @ '' Flag''\<rparr>),
                  valueChild := Some (cca2 (countries ! i) @ '' (''
                     @ idd_root (countries ! i)
                     @ (if length (idd_suffixes (countries ! i)) = 1
                        then idd_suffixes (countries ! i) ! 0 else [])
                     @ '')''),
                  ariaLabel := Some (name_common (countries ! i)),
                  titleAttr := Some (name_common (countries ! i))\<rparr>"
    if i: "i < length countries" for i
  proof -
    have len: "length its = length countries" using mc by (metis length_map)
    have "element (its ! i) = map element its ! i" using i len by simp
    also have "\<dots> = n + i" unfolding me using i by simp
    finally have "elems s' (element (items s' ! i)) = elems s1 (n + i)" by (simp add: its' el')
    also have "\<dots> = fillItemElement (countries ! i) fl (elems s listItem)" using new i by blast
    finally show ?thesis by (simp add: fillItemElement_def Let_def code)
  qed
  have r1: "map country (items s') = countries" unfolding its' by (rule mc)
  have r2: "map element (items s') = [nextId s..<nextId s + length countries]"
    unfolding its' using me by (simp add: n_def)
  show ?thesis
    by (intro exI [of _ s'] conjI allI impI) (rule r0 r1 r2 r3 r4 r5, assumption?)+
qed

theorem renderOptions_renders_witness:
  "list examplePage = Some [0] \<and> (0::nat) < nextId examplePage
   \<and> (\<exists>s'. renderOptions [US, FR] examplePage = Inr s'
        \<and> map country (items s') = [US, FR]
        \<and> map element (items s') = [1, 2]
        \<and> list s' = Some [1, 2]
        \<and> valueChild (elems s' (element (items s' ! 0))) = Some ''US (+1)''
        \<and> valueChild (elems s' (element (items s' ! 1))) = Some ''FR (+33)''
        \<and> titleAttr (elems s' (element (items s' ! 1))) = Some ''France'')"
proof -
  have a: "list examplePage = Some (0 # [])" by (simp add: examplePage_def)
  have b: "(0::nat) < nextId examplePage" by (simp add: examplePage_def)
  have c: "flagChild (elems examplePage 0) = Some \<lparr>src = [], alt = []\<rparr>"
    by (simp add: examplePage_def templateElement_def)
  have d: "valueChild (elems examplePage 0) = Some []"
    by (simp add: examplePage_def templateElement_def)
  have n: "nextId examplePage = 1" by (simp add: examplePage_def)
  obtain s' where run: "renderOptions [US, FR] examplePage = Inr s'"
    and mc: "map country (items s') = [US, FR]"
    and me: "map element (items s') = [nextId examplePage..<nextId examplePage + length [US, FR]]"
    and ls: "list s' = Some ([] @ map element (items s'))"
    and at: "\<forall>i<length [US, FR].
           elems s' (element (items s' ! i))
             = (elems examplePage 0)
                 \<lparr>flagChild := Some (\<lparr>src = [], alt = []\<rparr>\<lparr>src := flags_svg ([US, FR] ! i),
                                        alt := name_common ([US, FR] ! i) @ '' Flag''\<rparr>),
                  valueChild := Some (cca2 ([US, FR] ! i) @ '' (''
                     @ idd_root ([US, FR] ! i)
                     @ (if length (idd_suffixes ([US, FR] ! i)) = 1
                        then idd_suffixes ([US, FR] ! i) ! 0 else [])
                     @ '')''),
                  ariaLabel := Some (name_common ([US, FR] ! i)),
                  titleAttr := Some (name_common ([US, FR] ! i))\<rparr>"
    using renderOptions_renders [OF a b c d, of "[US, FR]"]
    by (elim exE conjE) (rule that; assumption)
  have me': "map element (items s') = [1, 2]"
    unfolding me n by (simp add: upt_rec)
  have "valueChild (elems s' (element (items s' ! 0))) = Some ''US (+1)''"
    using at [THEN spec, of 0] by (simp add: US_def)
  moreover have "valueChild (elems s' (element (items s' ! 1))) = Some ''FR (+33)''"
    using at [THEN spec, of 1] by (simp add: FR_def)
  moreover have "titleAttr (elems s' (element (items s' ! 1))) = Some ''France''"
    using at [THEN spec, of 1] by (simp add: FR_def)
  moreover have "list s' = Some [1, 2]" using ls me' by simp
  ultimately show ?thesis
    using a b run mc me' by (intro conjI exI [of _ s']) simp_all
qed

text \<open>
  C7, as stated, fails: for the glossary's country with root 1 and the one suffix 242 the
  label is \<open>BS (1242)\<close>, not the ISO code followed by the root and suffix after a plus sign.
\<close>

theorem label_has_no_plus_of_its_own:
  "\<not> isl (renderOptions [BS] examplePage)
   \<and> valueChild (elems (projr (renderOptions [BS] examplePage)) 1) = Some ''BS (1242)''
   \<and> valueChild (elems (projr (renderOptions [BS] examplePage)) 1)
       \<noteq> Some (cca2 BS @ '' (+'' @ idd_root BS @ hd (idd_suffixes BS) @ '')'')"
  by (simp add: renderOptions_def examplePage_def createCountryItem_def templateElement_def
      fillItemElement_def countryCodeOf_def BS_def appendChild_def removeChild_def Let_def)

section \<open>The initial selection\<close>

lemma handleItemSelect_selectedItem:
  assumes "tg_flag (dropdownToggle s) = Some fl" and "tg_value (dropdownToggle s) = Some v"
  shows "\<exists>s'. handleItemSelect item s = Inr s' \<and> selectedItem s' = Some item"
proof (cases "selectedItem s = Some item")
  case True
  then show ?thesis using handleItemSelect_same by blast
next
  case False
  obtain s' where "handleItemSelect item s = Inr s'" and "selectedItem s' = Some item"
    using handleItemSelect_fields [OF False assms] by metis
  then show ?thesis by blast
qed

lemma fetchUserLocation_snd: "snd (fetchUserLocation net s) = s\<lparr>effects := effects s @ [Fetch traceUrl]\<rparr>"
  by (simp add: fetchUserLocation_def fetch_def)

text \<open>
  C2.  Once rendering has succeeded and the location request has settled, the effective
  country code is the location when that is defined and not empty, and the constructor's
  default otherwise.  When some item has that code as its \<open>cca2\<close>, \<open>init\<close> ends as
  \<open>handleItemSelect\<close> on the first such item does, and (the toggle having its flag and value
  children) that item is then \<open>selectedItem\<close>.  When no item has it, \<open>init\<close> ends with the
  widget as it was when the request settled: nothing is selected by it.
\<close>

theorem init_selects_effective_country:
  fixes defaultCountryCode :: "string option"
  assumes "init_render netCountries s = Inr s4"
    and "fetchUserLocation netTrace s4 = (Inr location, s5)"
  defines "effective \<equiv> (case location of
      None \<Rightarrow> defaultCountryCode
    | Some code \<Rightarrow> if code \<noteq> [] then Some code else defaultCountryCode)"
  shows "items s5 = items s4 \<and> selectedItem s5 = selectedItem s4
     \<and> (\<forall>i<length (items s5).
           Some (cca2 (country (items s5 ! i))) = effective
           \<and> (\<forall>j<i. Some (cca2 (country (items s5 ! j))) \<noteq> effective)
         \<longrightarrow> init defaultCountryCode netCountries netTrace s = handleItemSelect (items s5 ! i) s5
           \<and> (tg_flag (dropdownToggle s5) \<noteq> None \<and> tg_value (dropdownToggle s5) \<noteq> None
              \<longrightarrow> (\<exists>s'. init defaultCountryCode netCountries netTrace s = Inr s'
                     \<and> selectedItem s' = Some (items s5 ! i))))
     \<and> ((\<forall>i<length (items s5). Some (cca2 (country (items s5 ! i))) \<noteq> effective)
         \<longrightarrow> init defaultCountryCode netCountries netTrace s = Inr s5)"
proof -
  have s5: "s5 = s4\<lparr>effects := effects s4 @ [Fetch traceUrl]\<rparr>"
    using fetchUserLocation_snd [of netTrace s4] assms(2) by simp
  have eff: "js_or location defaultCountryCode = effective"
    by (simp add: js_or_def effective_def split: option.splits)
  have run: "init defaultCountryCode netCountries netTrace s =
      (case find (\<lambda>item. Some (cca2 (country item)) = effective) (items s5) of
         None \<Rightarrow> Inr s5
       | Some selectedCountry \<Rightarrow> handleItemSelect selectedCountry s5)"
    using assms(1,2) by (simp add: init_def init_select_def eff Let_def)
  have first: "init defaultCountryCode netCountries netTrace s = handleItemSelect (items s5 ! i) s5
           \<and> (tg_flag (dropdownToggle s5) \<noteq> None \<and> tg_value (dropdownToggle s5) \<noteq> None
              \<longrightarrow> (\<exists>s'. init defaultCountryCode netCountries netTrace s = Inr s'
                     \<and> selectedItem s' = Some (items s5 ! i)))"
    if i: "i < length (items s5)"
      and m: "Some (cca2 (country (items s5 ! i))) = effective
           \<and> (\<forall>j<i. Some (cca2 (country (items s5 ! j))) \<noteq> effective)" for i
  proof -
    have "find (\<lambda>item. Some (cca2 (country item)) = effective) (items s5) = Some (items s5 ! i)"
      unfolding find_Some_iff using i m by blast
    then have r: "init defaultCountryCode netCountries netTrace s
        = handleItemSelect (items s5 ! i) s5"
      using run by simp
    have "\<exists>s'. init defaultCountryCode netCountries netTrace s = Inr s'
                     \<and> selectedItem s' = Some (items s5 ! i)"
      if ok: "tg_flag (dropdownToggle s5) \<noteq> None \<and> tg_value (dropdownToggle s5) \<noteq> None"
    proof -
      obtain fl v where "tg_flag (dropdownToggle s5) = Some fl" "tg_value (dropdownToggle s5) = Some v"
        using ok by fastforce
      then show ?thesis unfolding r by (rule handleItemSelect_selectedItem)
    qed
    then show ?thesis using r by blast
  qed
  have none: "init defaultCountryCode netCountries netTrace s = Inr s5"
    if "\<forall>i<length (items s5). Some (cca2 (country (items s5 ! i))) \<noteq> effective"
  proof -
    have "find (\<lambda>item. Some (cca2 (country item)) = effective) (items s5) = None"
      unfolding find_None_iff using that by (metis in_set_conv_nth)
    then show ?thesis using run by simp
  qed
  have same: "items s5 = items s4" "selectedItem s5 = selectedItem s4"
    by (simp_all add: s5)
  show ?thesis
    using same none first by (intro conjI allI impI) blast+
qed

lemma init_render_example: "init_render (Inr exampleResponse) examplePage = Inr exampleRendered"
  by (simp add: init_render_def fetchCountries_def try_catch_def exampleResponse_def fetch_def
      renderOptions_def examplePage_def createCountryItem_def templateElement_def
      appendChild_def removeChild_def addEventListeners_def observeDropdownList_def
      exampleRendered_def itemUS_def itemFR_def Let_def eval_nat_numeral)

lemma parseLoc_example: "parseLoc exampleTrace = Some ''FR''"
  by code_simp

theorem init_selects_effective_country_witness:
  "init_render (Inr exampleResponse) examplePage = Inr exampleRendered
   \<and> fst (fetchUserLocation (Inr exampleResponse) exampleRendered) = Inr (Some ''FR'')
   \<and> fst (fetchUserLocation (Inl NetworkError) exampleRendered) = Inr None
   \<and> (\<exists>s'. init (Some ''US'') (Inr exampleResponse) (Inr exampleResponse) examplePage = Inr s'
          \<and> selectedItem s' = Some itemFR)
   \<and> (\<exists>s'. init (Some ''US'') (Inr exampleResponse) (Inl NetworkError) examplePage = Inr s'
          \<and> selectedItem s' = Some itemUS)
   \<and> init None (Inr exampleResponse) (Inl NetworkError) examplePage
       = Inr (exampleRendered\<lparr>effects := effects exampleRendered @ [Fetch traceUrl]\<rparr>)"
proof -
  define s5 where "s5 = exampleRendered\<lparr>effects := effects exampleRendered @ [Fetch traceUrl]\<rparr>"
  have a: "init_render (Inr exampleResponse) examplePage = Inr exampleRendered"
    by (rule init_render_example)
  have b1: "fetchUserLocation (Inr exampleResponse) exampleRendered = (Inr (Some ''FR''), s5)"
    by (simp add: fetchUserLocation_def try_catch_def exampleResponse_def parseLoc_example
        fetch_def s5_def)
  have b2: "fetchUserLocation (Inl NetworkError) exampleRendered = (Inr None, s5)"
    by (simp add: fetchUserLocation_def try_catch_def fetch_def s5_def)
  have its: "items s5 = [itemUS, itemFR]" by (simp add: s5_def exampleRendered_def)
  have tg: "tg_flag (dropdownToggle s5) \<noteq> None \<and> tg_value (dropdownToggle s5) \<noteq> None"
    by (simp add: s5_def exampleRendered_def exampleToggle_def)
  have lt1: "1 < length (items s5)" and lt0: "0 < length (items s5)"
    by (simp_all add: its)
  have m1: "Some (cca2 (country (items s5 ! 1)))
        = (case Some ''FR'' of None \<Rightarrow> Some ''US''
           | Some code \<Rightarrow> if code \<noteq> [] then Some code else Some ''US'')
      \<and> (\<forall>j<1. Some (cca2 (country (items s5 ! j)))
        \<noteq> (case Some ''FR'' of None \<Rightarrow> Some ''US''
           | Some code \<Rightarrow> if code \<noteq> [] then Some code else Some ''US''))"
    unfolding its by (simp add: itemUS_def itemFR_def US_def FR_def)
  have m0: "Some (cca2 (country (items s5 ! 0)))
        = (case None of None \<Rightarrow> Some ''US''
           | Some code \<Rightarrow> if code \<noteq> [] then Some code else Some ''US'')
      \<and> (\<forall>j<0. Some (cca2 (country (items s5 ! j)))
        \<noteq> (case None of None \<Rightarrow> Some ''US''
           | Some code \<Rightarrow> if code \<noteq> [] then Some code else Some ''US''))"
    unfolding its by (simp add: itemUS_def US_def)
  have mn: "\<forall>i<length (items s5). Some (cca2 (country (items s5 ! i)))
        \<noteq> (case None of None \<Rightarrow> None
           | Some code \<Rightarrow> if code \<noteq> [] then Some code else None)"
    by simp
  have fr: "\<exists>s'. init (Some ''US'') (Inr exampleResponse) (Inr exampleResponse) examplePage = Inr s'
          \<and> selectedItem s' = Some (items s5 ! 1)"
    using init_selects_effective_country [OF a b1, of "Some ''US''",
        THEN conjunct2, THEN conjunct2, THEN conjunct1, THEN spec, of 1,
        THEN mp, OF lt1, THEN mp, OF m1, THEN conjunct2, THEN mp, OF tg] .
  have us: "\<exists>s'. init (Some ''US'') (Inr exampleResponse) (Inl NetworkError) examplePage = Inr s'
          \<and> selectedItem s' = Some (items s5 ! 0)"
    using init_selects_effective_country [OF a b2, of "Some ''US''",
        THEN conjunct2, THEN conjunct2, THEN conjunct1, THEN spec, of 0,
        THEN mp, OF lt0, THEN mp, OF m0, THEN conjunct2, THEN mp, OF tg] .
  have no: "init None (Inr exampleResponse) (Inl NetworkError) examplePage = Inr s5"
    using init_selects_effective_country [OF a b2, of None,
        THEN conjunct2, THEN conjunct2, THEN conjunct2, THEN mp, OF mn] .
  have i1: "items s5 ! 1 = itemFR" and i0: "items s5 ! 0 = itemUS" by (simp_all add: its)
  have f1: "fst (fetchUserLocation (Inr exampleResponse) exampleRendered) = Inr (Some ''FR'')"
    and f2: "fst (fetchUserLocation (Inl NetworkError) exampleRendered) = Inr None"
    by (simp_all add: b1 b2)
  note fr' = fr [unfolded i1] and us' = us [unfolded i0] and no' = no [unfolded s5_def]
  show ?thesis
    by (intro conjI) (rule a f1 f2 fr' us' no')+
qed

end
